theory Spec2Isabelle
  imports Complex_Main "HOL-Library.Sublist"
begin

section \<open>JavaScript strings and values\<close>

text \<open>
  Strings are byte lists (UTF-8); the program only concatenates, compares with the empty
  string, replaces one ASCII marker and trims. \<open>trim\<close> removes the ASCII white space;
  the white space beyond ASCII that JavaScript removes as well is not modelled. Numbers
  that are only copied (temperatures, scores) are rationals. A value thrown by the program or by the
  backend is an element of \<open>thrown\<close>; \<open>Null\<close> is the initial value of
  \<open>lastError\<close> in \<open>withRetries\<close>.
\<close>

datatype thrown = Error string | TypeError string | SyntaxError string | Null

fun message :: "thrown \<Rightarrow> string" where
  "message (Error m) = m"
| "message (TypeError m) = m"
| "message (SyntaxError m) = m"
| "message Null = ''null''"

definition is_ws :: "char \<Rightarrow> bool" where
  "is_ws c = (c = CHR '' '' \<or> c = CHR 0x09 \<or> c = CHR 0x0A \<or> c = CHR 0x0B
              \<or> c = CHR 0x0C \<or> c = CHR 0x0D)"

definition trim :: "string \<Rightarrow> string" where
  "trim s = rev (dropWhile is_ws (rev (dropWhile is_ws s)))"

fun starts_with :: "string \<Rightarrow> string \<Rightarrow> bool" where
  "starts_with [] s = True"
| "starts_with (p # ps) [] = False"
| "starts_with (p # ps) (c # cs) = (p = c \<and> starts_with ps cs)"

fun split_at_first :: "string \<Rightarrow> string \<Rightarrow> (string \<times> string) option" where
  "split_at_first pat [] = (if pat = [] then Some ([], []) else None)"
| "split_at_first pat (c # cs) =
     (if starts_with pat (c # cs) then Some ([], drop (length pat) (c # cs))
      else (case split_at_first pat cs of
              None \<Rightarrow> None
            | Some (pre, post) \<Rightarrow> Some (c # pre, post)))"

text \<open>
  The replacement string of \<open>String.prototype.replace\<close> with a string pattern:
  \<open>$$\<close>, \<open>$&\<close>, \<open>$`\<close> and \<open>$'\<close> are expanded, every other character is
  copied.
\<close>

fun expand_replacement :: "string \<Rightarrow> string \<Rightarrow> string \<Rightarrow> string \<Rightarrow> string" where
  "expand_replacement pre matched post [] = []"
| "expand_replacement pre matched post [c] = [c]"
| "expand_replacement pre matched post (c # d # r) =
     (if c = CHR 0x24 \<and> d = CHR 0x24 then CHR 0x24 # expand_replacement pre matched post r
      else if c = CHR 0x24 \<and> d = CHR ''&'' then matched @ expand_replacement pre matched post r
      else if c = CHR 0x24 \<and> d = CHR 0x60 then pre @ expand_replacement pre matched post r
      else if c = CHR 0x24 \<and> d = CHR 0x27 then post @ expand_replacement pre matched post r
      else c # expand_replacement pre matched post (d # r))"

definition replace :: "string \<Rightarrow> string \<Rightarrow> string \<Rightarrow> string" where
  "replace s pat rep =
     (case split_at_first pat s of
        None \<Rightarrow> s
      | Some (pre, post) \<Rightarrow> pre @ expand_replacement pre pat post rep @ post)"

definition join :: "string \<Rightarrow> string list \<Rightarrow> string" where
  "join sep xs = (case xs of [] \<Rightarrow> [] | y # ys \<Rightarrow> foldl (\<lambda>acc x. acc @ sep @ x) y ys)"

section \<open>services/llmRouter.ts: the model router\<close>

datatype Mode = fast | quality

datatype AgentId =
  UNDERSTANDING | VISUAL_DIRECTOR | IMAGE_GEN | FAST_GUARDRAIL | IMAGE_QA | COPY | EMPATHY

fun agentName :: "AgentId \<Rightarrow> string" where
  "agentName UNDERSTANDING = ''UNDERSTANDING''"
| "agentName VISUAL_DIRECTOR = ''VISUAL_DIRECTOR''"
| "agentName IMAGE_GEN = ''IMAGE_GEN''"
| "agentName FAST_GUARDRAIL = ''FAST_GUARDRAIL''"
| "agentName IMAGE_QA = ''IMAGE_QA''"
| "agentName COPY = ''COPY''"
| "agentName EMPATHY = ''EMPATHY''"

fun modeName :: "Mode \<Rightarrow> string" where
  "modeName fast = ''fast''"
| "modeName quality = ''quality''"

record ModelSpec =
  model :: string
  temperature :: rat
  topP :: "rat option"
  topK :: "nat option"
  maxOutputTokens :: "nat option"
  responseMimeType :: "string option"
  retries :: int
  tools :: "string list option"

definition mkSpec :: "string \<Rightarrow> rat \<Rightarrow> string option \<Rightarrow> int \<Rightarrow> ModelSpec" where
  "mkSpec m t mime r =
     \<lparr>model = m, temperature = t, topP = None, topK = None, maxOutputTokens = None,
      responseMimeType = mime, retries = r, tools = None\<rparr>"

type_synonym Matrix = "Mode \<Rightarrow> AgentId \<Rightarrow> ModelSpec option"

fun MODEL_MATRIX :: Matrix where
  "MODEL_MATRIX fast UNDERSTANDING =
     Some ((mkSpec ''gemini-3-pro-preview'' (2/10) (Some ''application/json'') 2)
             \<lparr>tools := Some [''googleSearch'']\<rparr>)"
| "MODEL_MATRIX fast VISUAL_DIRECTOR =
     Some (mkSpec ''gemini-3-pro-preview'' (4/10) (Some ''application/json'') 2)"
| "MODEL_MATRIX fast IMAGE_GEN =
     Some ((mkSpec ''gemini-2.5-flash-image'' (5/10) None 2)\<lparr>maxOutputTokens := Some 1024\<rparr>)"
| "MODEL_MATRIX fast FAST_GUARDRAIL =
     Some (mkSpec ''gemini-2.5-flash-lite'' (1/10) (Some ''application/json'') 1)"
| "MODEL_MATRIX fast IMAGE_QA = None"
| "MODEL_MATRIX fast COPY =
     Some (mkSpec ''gemini-2.5-flash'' (7/10) (Some ''application/json'') 2)"
| "MODEL_MATRIX fast EMPATHY =
     Some ((mkSpec ''gemini-2.5-flash'' (5/10) None 2)\<lparr>maxOutputTokens := Some 100\<rparr>)"
| "MODEL_MATRIX quality UNDERSTANDING =
     Some ((mkSpec ''gemini-3-pro-preview'' (2/10) (Some ''application/json'') 3)
             \<lparr>tools := Some [''googleSearch'']\<rparr>)"
| "MODEL_MATRIX quality VISUAL_DIRECTOR =
     Some (mkSpec ''gemini-3-pro-preview'' (4/10) (Some ''application/json'') 3)"
| "MODEL_MATRIX quality IMAGE_GEN =
     Some ((mkSpec ''gemini-3-pro-image-preview'' (55/100) None 3)
             \<lparr>topP := Some (9/10), topK := Some 30\<rparr>)"
| "MODEL_MATRIX quality IMAGE_QA =
     Some (mkSpec ''gemini-2.5-flash-lite'' (1/10) (Some ''application/json'') 2)"
| "MODEL_MATRIX quality FAST_GUARDRAIL = None"
| "MODEL_MATRIX quality COPY =
     Some (mkSpec ''gemini-3-pro-preview'' (7/10) (Some ''application/json'') 3)"
| "MODEL_MATRIX quality EMPATHY =
     Some ((mkSpec ''gemini-3-pro-preview'' (5/10) None 2)\<lparr>maxOutputTokens := Some 100\<rparr>)"

record LLMTraceRecord =
  tr_agent :: AgentId
  tr_mode :: Mode
  tr_model :: string
  tr_temperature :: rat
  tr_responseMimeType :: "string option"
  tr_retriesUsed :: nat
  tr_durationMs :: nat
  tr_ok :: bool
  tr_error :: "string option"

section \<open>types.ts: the data contracts the pipeline uses\<close>

text \<open>
  A \<open>File\<close> of the request is represented by the data URL that \<open>fileToDataURL\<close>
  reads from it. Of \<open>DirectorImagePlan\<close> only the two fields the pipeline reads are
  kept. Fields that the response schemas do not require are options.
\<close>

datatype Platform = wechat_moments | xiaohongshu
datatype Mood = happy | tired | sad | calm | anxious | grateful | proud
datatype Intent = just_record | show_off | seek_empathy | vent
datatype Language = zh | en
datatype Action = create | refine
datatype RefineMode = none | more_literary | more_realistic | lighter
datatype RefineTarget = target_copy | target_image | target_both

fun platformName :: "Platform \<Rightarrow> string" where
  "platformName wechat_moments = ''wechat_moments''"
| "platformName xiaohongshu = ''xiaohongshu''"

fun moodName :: "Mood \<Rightarrow> string" where
  "moodName happy = ''happy''"
| "moodName tired = ''tired''"
| "moodName sad = ''sad''"
| "moodName calm = ''calm''"
| "moodName anxious = ''anxious''"
| "moodName grateful = ''grateful''"
| "moodName proud = ''proud''"

fun intentName :: "Intent \<Rightarrow> string" where
  "intentName just_record = ''just_record''"
| "intentName show_off = ''show_off''"
| "intentName seek_empathy = ''seek_empathy''"
| "intentName vent = ''vent''"

record UserRequest =
  images :: "string list"
  reference_images :: "string list option"
  raw_text :: string
  platform :: Platform
  mood_user :: Mood
  intent_user :: Intent
  language :: "Language option"
  enable_l4_loop :: "bool option"
  performance_mode :: "Mode option"
  action :: "Action option"
  traceId :: "string option"
  variant_id :: "string option"
  refine_mode :: "RefineMode option"
  refine_instruction :: "string option"
  refine_target :: "RefineTarget option"
  refine_from_original :: "bool option"
  refine_image_index :: "nat option"

record UnderstandingPerImage =
  pi_image_index :: int
  what_matters :: "string list"
  risks :: "string list"
  keep_notes :: "string list"
  can_change_notes :: "string list"

record UnderstandingOut =
  u_story_core :: string
  u_user_intent :: string
  u_platform :: string
  u_mood :: string
  u_suggested_tone :: "string option"
  u_target_aesthetic :: "string list"
  per_image :: "UnderstandingPerImage list"

record DirectorImagePlan =
  image_index :: int
  nano_prompt_en_v2 :: string

record DirectorOut =
  d_images :: "DirectorImagePlan list"

record ImageRevisionAction =
  ra_action :: "string option"
  instruction :: string

record FastGuardrailOut =
  g_image_index :: "int option"
  pass :: bool
  score :: "rat option"
  verdict :: string
  reasons :: "string list option"
  revision_actions :: "ImageRevisionAction list option"

record ImageQAOut =
  qa_pass :: bool
  qa_score :: "rat option"
  qa_verdict :: string
  qa_reasons :: "string list option"
  qa_revision_actions :: "ImageRevisionAction list option"

record GeneratedCopy =
  title :: string
  main_text :: string
  hash_tags :: "string list"

section \<open>The backend capability\<close>

text \<open>
  \<open>ai.models.generateContent\<close> is the only external call. A call is answered from
  the history of the calls sent so far and the call itself, so that the backend may be
  stateful; the answer carries the milliseconds that \<open>performance.now()\<close> measures
  around the attempt. \<open>res_json\<close> is what \<open>JSON.parse\<close> returns on the cleaned
  text of the response (\<open>None\<close> when it throws); a parsed value has the shape of one
  of the response schemas, and a value of another schema than the one requested is
  treated like an unparseable text. An image part is identified by the data URL it was
  built from.
\<close>

datatype Schema = UnderstandingSchema | DirectorSchema | GuardrailSchema | QASchema | CopySchema

datatype Part = InlineData string | TextPart string

record Config =
  cfg_temperature :: rat
  cfg_responseMimeType :: "string option"
  cfg_responseSchema :: "Schema option"
  cfg_systemInstruction :: "string option"
  cfg_tools :: "string list option"
  cfg_topP :: "rat option"
  cfg_topK :: "nat option"

record Call =
  call_model :: string
  call_contents :: "Part list"
  call_config :: Config

datatype Json =
  JUnderstanding UnderstandingOut
| JDirector DirectorOut
| JGuardrail FastGuardrailOut
| JImageQA ImageQAOut
| JCopy GeneratedCopy

record ResPart =
  part_text :: "string option"
  part_inlineData :: "string option"

record Response =
  res_text :: "string option"
  res_parts :: "ResPart list option"
  res_json :: "Json option"

datatype Outcome = Throws thrown | Returns Response

record GoogleGenAI =
  respond :: "Call list \<Rightarrow> Call \<Rightarrow> nat \<times> Outcome"
  sent :: "Call list"

definition generateContent :: "Call \<Rightarrow> GoogleGenAI \<Rightarrow> (nat \<times> Outcome) \<times> GoogleGenAI" where
  "generateContent c g = (respond g (sent g) c, g\<lparr>sent := sent g @ [c]\<rparr>)"

fun asUnderstanding :: "Json \<Rightarrow> UnderstandingOut option" where
  "asUnderstanding (JUnderstanding u) = Some u"
| "asUnderstanding _ = None"

fun asDirector :: "Json \<Rightarrow> DirectorOut option" where
  "asDirector (JDirector d) = Some d"
| "asDirector _ = None"

fun asGuardrail :: "Json \<Rightarrow> FastGuardrailOut option" where
  "asGuardrail (JGuardrail g) = Some g"
| "asGuardrail _ = None"

fun asImageQA :: "Json \<Rightarrow> ImageQAOut option" where
  "asImageQA (JImageQA q) = Some q"
| "asImageQA _ = None"

fun asCopy :: "Json \<Rightarrow> GeneratedCopy option" where
  "asCopy (JCopy c) = Some c"
| "asCopy _ = None"

section \<open>class LLMRouter\<close>

text \<open>
  The router holds the backend client, the mode and the trace list. The module constant
  \<open>MODEL_MATRIX\<close> is a field too, set by the constructor, so that the statements
  about the router's methods hold for every table and not only for the shipped one.
\<close>

record LLMRouter =
  ai :: GoogleGenAI
  mode :: Mode
  router_traceId :: string
  traces :: "LLMTraceRecord list"
  matrix :: Matrix

definition newLLMRouter :: "GoogleGenAI \<Rightarrow> UserRequest \<Rightarrow> string \<Rightarrow> LLMRouter" where
  "newLLMRouter api request tid =
     \<lparr>ai = api,
      mode = (if enable_l4_loop request = Some True then quality
              else (case performance_mode request of Some m \<Rightarrow> m | None \<Rightarrow> fast)),
      router_traceId = tid,
      traces = [],
      matrix = MODEL_MATRIX\<rparr>"

definition getMode :: "LLMRouter \<Rightarrow> Mode" where
  "getMode llm = mode llm"

definition getTraces :: "LLMRouter \<Rightarrow> LLMTraceRecord list" where
  "getTraces llm = traces llm"

definition getSpec :: "LLMRouter \<Rightarrow> AgentId \<Rightarrow> ModelSpec option" where
  "getSpec llm agentId = matrix llm (mode llm) agentId"

definition getSpecForMode :: "LLMRouter \<Rightarrow> Mode \<Rightarrow> AgentId \<Rightarrow> ModelSpec option" where
  "getSpecForMode llm m agentId = matrix llm m agentId"

definition extractTextFromResponse :: "Response \<Rightarrow> string" where
  "extractTextFromResponse res =
     (case res_text res of
        Some t \<Rightarrow> if t \<noteq> [] then t
                  else (case res_parts res of
                          None \<Rightarrow> []
                        | Some ps \<Rightarrow> join [CHR 0x0A]
                            (filter (\<lambda>t. t \<noteq> []) (List.map_filter part_text ps)))
      | None \<Rightarrow> (case res_parts res of
                   None \<Rightarrow> []
                 | Some ps \<Rightarrow> join [CHR 0x0A]
                     (filter (\<lambda>t. t \<noteq> []) (List.map_filter part_text ps))))"

definition recordTrace ::
  "AgentId \<Rightarrow> ModelSpec \<Rightarrow> nat \<Rightarrow> nat \<Rightarrow> bool \<Rightarrow> string option \<Rightarrow> Mode option
     \<Rightarrow> LLMRouter \<Rightarrow> LLMRouter" where
  "recordTrace agentId spec attempt durationMs ok err modeOverride llm =
     llm\<lparr>traces := traces llm @
       [\<lparr>tr_agent = agentId,
         tr_mode = (case modeOverride of Some m \<Rightarrow> m | None \<Rightarrow> mode llm),
         tr_model = model spec,
         tr_temperature = temperature spec,
         tr_responseMimeType = responseMimeType spec,
         tr_retriesUsed = attempt,
         tr_durationMs = durationMs,
         tr_ok = ok,
         tr_error = err\<rparr>]\<rparr>"

text \<open>
  An action of \<open>withRetries\<close> runs against the backend client and returns the measured
  duration with either the value it produced or what it threw.
\<close>

type_synonym 'a action = "GoogleGenAI \<Rightarrow> (nat \<times> (thrown + 'a)) \<times> GoogleGenAI"

definition attemptsOf :: "ModelSpec \<Rightarrow> nat" where
  "attemptsOf spec = nat (max 1 (if retries spec = 0 then 1 else retries spec))"

definition invalidResponse :: "AgentId \<Rightarrow> thrown" where
  "invalidResponse agentId = Error (''[LLMRouter] Invalid response for '' @ agentName agentId)"

text \<open>
  The loop of \<open>withRetries\<close>: \<open>k\<close> iterations remain, \<open>attempt\<close> is the loop
  counter, \<open>lastError\<close> the variable of that name.
\<close>

fun retryLoop ::
  "AgentId \<Rightarrow> ModelSpec \<Rightarrow> 'a action \<Rightarrow> ('a \<Rightarrow> bool) \<Rightarrow> Mode option
     \<Rightarrow> nat \<Rightarrow> nat \<Rightarrow> thrown \<Rightarrow> LLMRouter \<Rightarrow> (thrown + 'a) \<times> LLMRouter" where
  "retryLoop agentId spec act isValid modeOverride 0 attempt lastError llm =
     (Inl lastError, llm)"
| "retryLoop agentId spec act isValid modeOverride (Suc k) attempt lastError llm =
     (case act (ai llm) of
        ((durationMs, Inr result), g) \<Rightarrow>
          if isValid result
          then (Inr result,
                recordTrace agentId spec attempt durationMs True None modeOverride
                  (llm\<lparr>ai := g\<rparr>))
          else retryLoop agentId spec act isValid modeOverride k (Suc attempt)
                 (invalidResponse agentId)
                 (recordTrace agentId spec attempt durationMs False
                    (Some (message (invalidResponse agentId))) modeOverride (llm\<lparr>ai := g\<rparr>))
      | ((durationMs, Inl err), g) \<Rightarrow>
          retryLoop agentId spec act isValid modeOverride k (Suc attempt) err
            (recordTrace agentId spec attempt durationMs False (Some (message err))
               modeOverride (llm\<lparr>ai := g\<rparr>)))"

definition withRetries ::
  "AgentId \<Rightarrow> ModelSpec \<Rightarrow> 'a action \<Rightarrow> ('a \<Rightarrow> bool) \<Rightarrow> Mode option
     \<Rightarrow> LLMRouter \<Rightarrow> (thrown + 'a) \<times> LLMRouter" where
  "withRetries agentId spec act isValid modeOverride llm =
     retryLoop agentId spec act isValid modeOverride (attemptsOf spec) 0 Null llm"

text \<open>
  Reading \<open>spec.retries\<close> of a \<open>null\<close> spec (the non-null assertion of
  \<open>getSpec\<close> checks nothing at run time) throws before any attempt is made.
\<close>

definition nullSpec :: thrown where
  "nullSpec = TypeError ''Cannot read properties of null (reading retries)''"

definition missingSpec :: "Mode \<Rightarrow> AgentId \<Rightarrow> thrown" where
  "missingSpec m agentId =
     Error (''[LLMRouter] Missing model spec for '' @ modeName m @ '':'' @ agentName agentId)"

definition emptyConfig :: "rat \<Rightarrow> Config" where
  "emptyConfig t =
     \<lparr>cfg_temperature = t, cfg_responseMimeType = None, cfg_responseSchema = None,
      cfg_systemInstruction = None, cfg_tools = None, cfg_topP = None, cfg_topK = None\<rparr>"

definition jsonCall :: "ModelSpec \<Rightarrow> Part list \<Rightarrow> string \<Rightarrow> Schema \<Rightarrow> Call" where
  "jsonCall spec contents systemInstruction schema =
     \<lparr>call_model = model spec, call_contents = contents,
      call_config = (emptyConfig (temperature spec))
        \<lparr>cfg_responseMimeType := Some ''application/json'',
         cfg_responseSchema := Some schema,
         cfg_systemInstruction := Some systemInstruction,
         cfg_tools := tools spec\<rparr>\<rparr>"

definition textCall :: "ModelSpec \<Rightarrow> Part list \<Rightarrow> string \<Rightarrow> Call" where
  "textCall spec contents systemInstruction =
     \<lparr>call_model = model spec, call_contents = contents,
      call_config = (emptyConfig (temperature spec))
        \<lparr>cfg_systemInstruction := Some systemInstruction\<rparr>\<rparr>"

definition jsonAction ::
  "AgentId \<Rightarrow> ModelSpec \<Rightarrow> Part list \<Rightarrow> string \<Rightarrow> Schema \<Rightarrow> (Json \<Rightarrow> 'a option) \<Rightarrow> 'a action" where
  "jsonAction agentId spec contents systemInstruction schema cast g =
     (case generateContent (jsonCall spec contents systemInstruction schema) g of
        ((d, Throws e), g') \<Rightarrow> ((d, Inl e), g')
      | ((d, Returns res), g') \<Rightarrow>
          if extractTextFromResponse res = []
          then ((d, Inl (Error (''[LLMRouter] Empty JSON response for '' @ agentName agentId))), g')
          else (case res_json res of
                  None \<Rightarrow> ((d, Inl (SyntaxError ''Unexpected token in JSON'')), g')
                | Some j \<Rightarrow>
                    (case cast j of
                       None \<Rightarrow> ((d, Inl (SyntaxError ''Unexpected token in JSON'')), g')
                     | Some v \<Rightarrow> ((d, Inr v), g'))))"

definition textAction :: "ModelSpec \<Rightarrow> Part list \<Rightarrow> string \<Rightarrow> string action" where
  "textAction spec contents systemInstruction g =
     (case generateContent (textCall spec contents systemInstruction) g of
        ((d, Throws e), g') \<Rightarrow> ((d, Inl e), g')
      | ((d, Returns res), g') \<Rightarrow> ((d, Inr (extractTextFromResponse res)), g'))"

definition validText :: "string \<Rightarrow> bool" where
  "validText t = (t \<noteq> [] \<and> trim t \<noteq> [])"

definition callJson ::
  "AgentId \<Rightarrow> Part list \<Rightarrow> string \<Rightarrow> Schema \<Rightarrow> (Json \<Rightarrow> 'a option) \<Rightarrow> LLMRouter
     \<Rightarrow> (thrown + 'a) \<times> LLMRouter" where
  "callJson agentId contents systemInstruction schema cast llm =
     (case getSpec llm agentId of
        None \<Rightarrow> (Inl nullSpec, llm)
      | Some spec \<Rightarrow>
          withRetries agentId spec (jsonAction agentId spec contents systemInstruction schema cast)
            (\<lambda>_. True) None llm)"

definition callText ::
  "AgentId \<Rightarrow> Part list \<Rightarrow> string \<Rightarrow> LLMRouter \<Rightarrow> (thrown + string) \<times> LLMRouter" where
  "callText agentId contents systemInstruction llm =
     (case getSpec llm agentId of
        None \<Rightarrow> (Inl nullSpec, llm)
      | Some spec \<Rightarrow>
          withRetries agentId spec (textAction spec contents systemInstruction) validText None llm)"

definition callTextWithMode ::
  "Mode \<Rightarrow> AgentId \<Rightarrow> Part list \<Rightarrow> string \<Rightarrow> LLMRouter \<Rightarrow> (thrown + string) \<times> LLMRouter" where
  "callTextWithMode m agentId contents systemInstruction llm =
     (case getSpecForMode llm m agentId of
        None \<Rightarrow> (Inl (missingSpec m agentId), llm)
      | Some spec \<Rightarrow>
          withRetries agentId spec (textAction spec contents systemInstruction) validText
            (Some m) llm)"

definition callJsonWithMode ::
  "Mode \<Rightarrow> AgentId \<Rightarrow> Part list \<Rightarrow> string \<Rightarrow> Schema \<Rightarrow> (Json \<Rightarrow> 'a option) \<Rightarrow> LLMRouter
     \<Rightarrow> (thrown + 'a) \<times> LLMRouter" where
  "callJsonWithMode m agentId contents systemInstruction schema cast llm =
     (case getSpecForMode llm m agentId of
        None \<Rightarrow> (Inl (missingSpec m agentId), llm)
      | Some spec \<Rightarrow>
          withRetries agentId spec (jsonAction agentId spec contents systemInstruction schema cast)
            (\<lambda>_. True) (Some m) llm)"

definition buildImageParts :: "string \<Rightarrow> string \<Rightarrow> string list \<Rightarrow> Part list" where
  "buildImageParts prompt base64Image referenceImages =
     [InlineData base64Image] @ map InlineData referenceImages @ [TextPart prompt]"

definition imageCall :: "ModelSpec \<Rightarrow> string \<Rightarrow> string \<Rightarrow> string list \<Rightarrow> Call" where
  "imageCall spec prompt base64Image referenceImages =
     \<lparr>call_model = model spec,
      call_contents = buildImageParts prompt base64Image referenceImages,
      call_config = (emptyConfig (temperature spec))\<lparr>cfg_topP := topP spec, cfg_topK := topK spec\<rparr>\<rparr>"

definition imageAction :: "ModelSpec \<Rightarrow> string \<Rightarrow> string \<Rightarrow> string list \<Rightarrow> (string option) action" where
  "imageAction spec prompt base64Image referenceImages g =
     (case generateContent (imageCall spec prompt base64Image referenceImages) g of
        ((d, Throws e), g') \<Rightarrow> ((d, Inl e), g')
      | ((d, Returns res), g') \<Rightarrow>
          (case res_parts res of
             None \<Rightarrow> ((d, Inl (TypeError ''Cannot read properties of undefined'')), g')
           | Some ps \<Rightarrow>
               (case List.map_filter part_inlineData ps of
                  [] \<Rightarrow> ((d, Inr None), g')
                | dat # _ \<Rightarrow> ((d, Inr (Some (''data:image/png;base64,'' @ dat))), g'))))"

definition truthy :: "string option \<Rightarrow> bool" where
  "truthy img = (case img of None \<Rightarrow> False | Some s \<Rightarrow> s \<noteq> [])"

definition callImageGenWithSpec ::
  "AgentId \<Rightarrow> ModelSpec \<Rightarrow> string \<Rightarrow> string \<Rightarrow> string list \<Rightarrow> Mode option \<Rightarrow> LLMRouter
     \<Rightarrow> (thrown + string option) \<times> LLMRouter" where
  "callImageGenWithSpec agentId spec prompt base64Image referenceImages modeOverride llm =
     withRetries agentId spec (imageAction spec prompt base64Image referenceImages) truthy
       modeOverride llm"

definition callImageGen ::
  "string \<Rightarrow> string \<Rightarrow> string list \<Rightarrow> LLMRouter \<Rightarrow> (thrown + string option) \<times> LLMRouter" where
  "callImageGen prompt base64Image referenceImages llm =
     (case getSpec llm IMAGE_GEN of
        None \<Rightarrow> (Inl nullSpec, llm)
      | Some spec \<Rightarrow> callImageGenWithSpec IMAGE_GEN spec prompt base64Image referenceImages None llm)"

definition callImageGenWithMode ::
  "Mode \<Rightarrow> string \<Rightarrow> string \<Rightarrow> string list \<Rightarrow> LLMRouter
     \<Rightarrow> (thrown + string option) \<times> LLMRouter" where
  "callImageGenWithMode m prompt base64Image referenceImages llm =
     (case getSpecForMode llm m IMAGE_GEN of
        None \<Rightarrow> (Inr None, llm)
      | Some spec \<Rightarrow>
          callImageGenWithSpec IMAGE_GEN spec prompt base64Image referenceImages (Some m) llm)"

section \<open>services/orchestratorSkeleton.ts: prompts and deterministic fallbacks\<close>

definition nl :: string where
  "nl = [CHR 0x0A]"

definition dq :: string where
  "dq = [CHR 0x22]"

definition sq :: string where
  "sq = [CHR 0x27]"

definition NANO_NEGATIVE_V3 :: string where
  "NANO_NEGATIVE_V3 = ''floating bokeh dots, random light spots, lens flare stickers, plastic skin, distorted fingers, text gibberish, clutter, watermarks.''"

definition UNDERSTANDING_SYSTEM :: string where
  "UNDERSTANDING_SYSTEM =
     nl @ ''You are a Technical Photography Director.'' @ nl @ ''Identify:'' @ nl
     @ ''1. Subject focus'' @ nl @ ''2. Primary light source'' @ nl
     @ ''3. Background clutter to hide'' @ nl"

definition DIRECTOR_SYSTEM :: string where
  "DIRECTOR_SYSTEM =
     nl @ ''You are a cinematic retoucher. Preserve structure and realism.'' @ nl
     @ ''Rules:'' @ nl
     @ ''- If a screen exists, use it as the key light with cyan/blue spill.'' @ nl
     @ ''- Clean the background into deep, tidy shadows or matte black surfaces.'' @ nl
     @ ''- No floating dots/orbs or fake bokeh. No distortions.'' @ nl @ nl
     @ ''Template:'' @ nl
     @ dq @ ''Cinema-grade relight.'' @ nl
     @ ''Subject: [SUBJECT].'' @ nl
     @ ''Lighting: screen-led key light with realistic spill.'' @ nl
     @ ''Environment: clean dark background, remove clutter, matte/obsidian surfaces.'' @ nl
     @ ''Color: neutral skin, cool shadows, high contrast.'' @ dq @ nl @ nl
     @ ''Negative: '' @ NANO_NEGATIVE_V3 @ nl"

definition FALLBACK_DIRECTOR_TEMPLATE :: string where
  "FALLBACK_DIRECTOR_TEMPLATE =
     nl @ ''Cinema-grade relight.'' @ nl
     @ ''Subject: [SUBJECT].'' @ nl
     @ ''Lighting: screen-led key light with realistic spill.'' @ nl
     @ ''Environment: clean dark background, remove clutter, matte/obsidian surfaces.'' @ nl
     @ ''Color: neutral skin, cool shadows, high contrast.'' @ nl
     @ ''Negative: '' @ NANO_NEGATIVE_V3 @ nl"

definition GUARDRAIL_SYSTEM :: string where
  "GUARDRAIL_SYSTEM =
     nl @ ''You are a Brutal Visual Quality Controller.'' @ nl
     @ ''Compare Original vs Enhanced.'' @ nl
     @ ''REJECT IF:'' @ nl
     @ ''1. '' @ dq @ ''Hallucination'' @ dq
     @ '': There are floating light dots or orbs that weren'' @ sq @ ''t there (FAIL).'' @ nl
     @ ''2. '' @ dq @ ''Weakness'' @ dq
     @ '': The background is still messy or hasn'' @ sq @ ''t changed (FAIL).'' @ nl
     @ ''3. '' @ dq @ ''Distortion'' @ dq @ '': The subject'' @ sq @ ''s shape is broken (FAIL).'' @ nl
     @ ''Verdict '' @ sq @ ''OK'' @ sq @ '' only if it looks like a clean movie frame.'' @ nl"

definition validateAndConstructPrompt ::
  "DirectorImagePlan \<Rightarrow> string \<Rightarrow> string \<Rightarrow> nat \<Rightarrow> string" where
  "validateAndConstructPrompt plan platformStr subject referenceCount =
     (let p = nano_prompt_en_v2 plan;
          finalPrompt = replace p ''[SUBJECT]'' (if subject = [] then ''primary subject'' else subject);
          referenceNote = (if referenceCount > 0
                           then ''Use reference images for lighting and material style.'' else [])
      in trim (finalPrompt @ nl
               @ ''[ACTION]: Clean shadows, keep light physically real. Target: '' @ platformStr
               @ '' premium look. '' @ referenceNote))"

definition mapPlatformToUnderstanding :: "Platform \<Rightarrow> string" where
  "mapPlatformToUnderstanding p = (if p = xiaohongshu then ''rednote'' else ''wechat'')"

definition buildFallbackUnderstanding :: "UserRequest \<Rightarrow> UnderstandingOut" where
  "buildFallbackUnderstanding req =
     \<lparr>u_story_core = (if raw_text req = [] then ''No user input provided.'' else raw_text req),
      u_user_intent = intentName (intent_user req),
      u_platform = mapPlatformToUnderstanding (platform req),
      u_mood = moodName (mood_user req),
      u_suggested_tone = Some ''professional_clean'',
      u_target_aesthetic = [],
      per_image = map (\<lambda>index.
          \<lparr>pi_image_index = int index, what_matters = [''subject''], risks = [],
           keep_notes = [], can_change_notes = []\<rparr>) [0..<length (images req)]\<rparr>"

text \<open>
  \<open>understanding.per_image.find(p => p.image_index === i)?.what_matters[0] || "subject"\<close>
\<close>

definition subjectOf :: "UnderstandingOut \<Rightarrow> int \<Rightarrow> string" where
  "subjectOf understanding idx =
     (case find (\<lambda>p. pi_image_index p = idx) (per_image understanding) of
        None \<Rightarrow> ''subject''
      | Some p \<Rightarrow> (case what_matters p of
                     [] \<Rightarrow> ''subject''
                   | w # _ \<Rightarrow> if w = [] then ''subject'' else w))"

definition buildFallbackDirector :: "UserRequest \<Rightarrow> UnderstandingOut \<Rightarrow> DirectorOut" where
  "buildFallbackDirector req understanding =
     \<lparr>d_images = map (\<lambda>index.
          \<lparr>image_index = int index,
           nano_prompt_en_v2 =
             replace FALLBACK_DIRECTOR_TEMPLATE ''[SUBJECT]'' (subjectOf understanding (int index))\<rparr>)
        [0..<length (images req)]\<rparr>"

text \<open>
  The loop \<open>for (const plan of res.images)\<close> that rewrites the prompt of every plan, the
  same in \<open>runVisualDirector\<close> and in both fallback branches of
  \<open>safeRunVisualDirector\<close>.
\<close>

definition rewritePlans :: "UserRequest \<Rightarrow> UnderstandingOut \<Rightarrow> DirectorOut \<Rightarrow> DirectorOut" where
  "rewritePlans req understanding res =
     res\<lparr>d_images := map (\<lambda>plan.
        plan\<lparr>nano_prompt_en_v2 :=
          validateAndConstructPrompt plan (platformName (platform req))
            (subjectOf understanding (image_index plan))
            (case reference_images req of None \<Rightarrow> 0 | Some r \<Rightarrow> length r)\<rparr>) (d_images res)\<rparr>"

section \<open>The agents\<close>

definition runUnderstanding ::
  "UserRequest \<Rightarrow> LLMRouter \<Rightarrow> (thrown + UnderstandingOut) \<times> LLMRouter" where
  "runUnderstanding req llm =
     callJson UNDERSTANDING (map InlineData (images req) @ [TextPart (raw_text req)])
       UNDERSTANDING_SYSTEM UnderstandingSchema asUnderstanding llm"

definition safeRunUnderstanding :: "UserRequest \<Rightarrow> LLMRouter \<Rightarrow> UnderstandingOut \<times> LLMRouter" where
  "safeRunUnderstanding req llm =
     (case runUnderstanding req llm of
        (Inr u, llm1) \<Rightarrow> (u, llm1)
      | (Inl err, llm1) \<Rightarrow>
          if getMode llm1 = quality
          then (case callJsonWithMode fast UNDERSTANDING [TextPart (raw_text req)]
                       UNDERSTANDING_SYSTEM UnderstandingSchema asUnderstanding llm1 of
                  (Inr u, llm2) \<Rightarrow> (u, llm2)
                | (Inl fallbackError, llm2) \<Rightarrow> (buildFallbackUnderstanding req, llm2))
          else (buildFallbackUnderstanding req, llm1))"

definition directorContents :: "UserRequest \<Rightarrow> Part list" where
  "directorContents req =
     map InlineData (images req) @ [TextPart ''Focus on Physicality and De-cluttering.'']"

definition runVisualDirector ::
  "UserRequest \<Rightarrow> UnderstandingOut \<Rightarrow> LLMRouter \<Rightarrow> (thrown + DirectorOut) \<times> LLMRouter" where
  "runVisualDirector req understanding llm =
     (case callJson VISUAL_DIRECTOR (directorContents req) DIRECTOR_SYSTEM DirectorSchema
             asDirector llm of
        (Inl err, llm1) \<Rightarrow> (Inl err, llm1)
      | (Inr res, llm1) \<Rightarrow> (Inr (rewritePlans req understanding res), llm1))"

definition safeRunVisualDirector ::
  "UserRequest \<Rightarrow> UnderstandingOut \<Rightarrow> LLMRouter \<Rightarrow> DirectorOut \<times> LLMRouter" where
  "safeRunVisualDirector req understanding llm =
     (if images req = [] then (\<lparr>d_images = []\<rparr>, llm)
      else (case runVisualDirector req understanding llm of
              (Inr d, llm1) \<Rightarrow> (d, llm1)
            | (Inl err, llm1) \<Rightarrow>
                if getMode llm1 = quality
                then (case callJsonWithMode fast VISUAL_DIRECTOR (directorContents req)
                             DIRECTOR_SYSTEM DirectorSchema asDirector llm1 of
                        (Inr fastDirector, llm2) \<Rightarrow>
                          (rewritePlans req understanding fastDirector, llm2)
                      | (Inl fallbackError, llm2) \<Rightarrow>
                          (rewritePlans req understanding (buildFallbackDirector req understanding),
                           llm2))
                else (rewritePlans req understanding (buildFallbackDirector req understanding),
                      llm1)))"

definition autoPass :: "nat \<Rightarrow> FastGuardrailOut" where
  "autoPass index =
     \<lparr>g_image_index = Some (int index), pass = True, score = Some 0, verdict = ''OK'',
      reasons = Some [], revision_actions = Some []\<rparr>"

definition guardrailContents :: "string \<Rightarrow> string \<Rightarrow> Part list" where
  "guardrailContents original enhanced = [InlineData original, InlineData enhanced]"

definition mapVerdict :: "string \<Rightarrow> string" where
  "mapVerdict v =
     (if v = ''OK'' then ''OK''
      else if v = ''COLOR_CAST'' then ''COLOR_CAST''
      else if v = ''ARTIFACTS'' then ''ARTIFACTS''
      else ''TOO_WEAK_CHANGE'')"

definition runFastGuardrail ::
  "nat \<Rightarrow> string \<Rightarrow> string \<Rightarrow> LLMRouter \<Rightarrow> (thrown + FastGuardrailOut) \<times> LLMRouter" where
  "runFastGuardrail index original enhanced llm =
     (let preferredAgent =
            (if getSpecForMode llm (getMode llm) FAST_GUARDRAIL \<noteq> None
             then FAST_GUARDRAIL else IMAGE_QA)
      in if getSpecForMode llm (getMode llm) preferredAgent = None
         then (Inr (autoPass index), llm)
         else if preferredAgent = IMAGE_QA
         then (case callJson preferredAgent (guardrailContents original enhanced)
                      GUARDRAIL_SYSTEM QASchema asImageQA llm of
                 (Inl err, llm1) \<Rightarrow> (Inl err, llm1)
               | (Inr qa, llm1) \<Rightarrow>
                   (Inr \<lparr>g_image_index = Some (int index), pass = qa_pass qa,
                         score = qa_score qa, verdict = mapVerdict (qa_verdict qa),
                         reasons = Some (case qa_reasons qa of None \<Rightarrow> [] | Some r \<Rightarrow> r),
                         revision_actions =
                           Some (case qa_revision_actions qa of None \<Rightarrow> [] | Some r \<Rightarrow> r)\<rparr>,
                    llm1))
         else callJson preferredAgent (guardrailContents original enhanced)
                GUARDRAIL_SYSTEM GuardrailSchema asGuardrail llm)"

definition safeRunFastGuardrail ::
  "nat \<Rightarrow> string \<Rightarrow> string \<Rightarrow> LLMRouter \<Rightarrow> FastGuardrailOut \<times> LLMRouter" where
  "safeRunFastGuardrail index original enhanced llm =
     (case runFastGuardrail index original enhanced llm of
        (Inr guard, llm1) \<Rightarrow> (guard, llm1)
      | (Inl err, llm1) \<Rightarrow>
          if getMode llm1 = quality
          then (case callJsonWithMode fast FAST_GUARDRAIL (guardrailContents original enhanced)
                       GUARDRAIL_SYSTEM GuardrailSchema asGuardrail llm1 of
                  (Inr guard, llm2) \<Rightarrow> (guard, llm2)
                | (Inl fallbackError, llm2) \<Rightarrow> (autoPass index, llm2))
          else (autoPass index, llm1))"

section \<open>runOrchestrator\<close>

record ImageScore =
  s_index :: nat
  s_score :: "rat option"
  s_verdict :: string

record Variant =
  v_id :: string
  style_name :: string
  usage_hint :: string
  creative_rationale :: string
  tone_direction :: string
  visual_direction :: string
  copy :: GeneratedCopy
  enhanced_images_base64 :: "string list"

record UnderstandingBundle =
  story_core :: string
  scene :: string
  theme :: string

record DebugInfo =
  nano_banana_prompts :: "string list"
  llmTrace :: "LLMTraceRecord list"
  perImageScores :: "ImageScore list"

record OrchestratorResponse =
  resp_traceId :: string
  understanding :: UnderstandingBundle
  visual_director_output :: DirectorOut
  empathic_reply :: string
  variants :: "Variant list"
  debugInfo :: DebugInfo

text \<open>
  The first generation of one image: \<open>callImageGen\<close> under the current mode and, when
  it throws in \<open>quality\<close> mode, \<open>callImageGenWithMode('fast', ...)\<close>.
\<close>

definition generateImage ::
  "DirectorImagePlan \<Rightarrow> string \<Rightarrow> string list \<Rightarrow> LLMRouter \<Rightarrow> string option \<times> LLMRouter" where
  "generateImage plan original referenceBase64 llm =
     (case callImageGen (nano_prompt_en_v2 plan) original referenceBase64 llm of
        (Inr resultImg, llm1) \<Rightarrow> (resultImg, llm1)
      | (Inl err, llm1) \<Rightarrow>
          if getMode llm1 = quality
          then (case callImageGenWithMode fast (nano_prompt_en_v2 plan) original
                       referenceBase64 llm1 of
                  (Inr resultImg, llm2) \<Rightarrow> (resultImg, llm2)
                | (Inl fallbackError, llm2) \<Rightarrow> (None, llm2))
          else (None, llm1))"

definition STRICT_DIRECTIVE :: string where
  "STRICT_DIRECTIVE =
     nl @ ''[STRICT]: ELIMINATE ALL FLOATING DOTS. Deepen shadows to black. Make the screen light the ONLY light.''"

definition rescueMode :: "LLMRouter \<Rightarrow> Mode" where
  "rescueMode llm = (if getMode llm = fast then quality else getMode llm)"

text \<open>The branch \<open>if (!guard.pass)\<close>: the rescue of one image.\<close>

definition rescueImage ::
  "DirectorImagePlan \<Rightarrow> string \<Rightarrow> string list \<Rightarrow> string option \<Rightarrow> LLMRouter
     \<Rightarrow> string option \<times> LLMRouter" where
  "rescueImage plan original referenceBase64 resultImg llm =
     (case callImageGenWithMode (rescueMode llm) (nano_prompt_en_v2 plan @ STRICT_DIRECTIVE)
             original referenceBase64 llm of
        (Inr rescueImg, llm1) \<Rightarrow> (if truthy rescueImg then rescueImg else resultImg, llm1)
      | (Inl err, llm1) \<Rightarrow> (resultImg, llm1))"

type_synonym enhanceState = "string list \<times> ImageScore list \<times> LLMRouter"

text \<open>The body of the loop over the image indices.\<close>

definition enhanceImage ::
  "DirectorOut \<Rightarrow> string list \<Rightarrow> string list \<Rightarrow> nat \<Rightarrow> enhanceState \<Rightarrow> enhanceState" where
  "enhanceImage directorOut originalBase64 referenceBase64 i st =
     (case st of (enhancedImages, scores, llm) \<Rightarrow>
      (case find (\<lambda>p. image_index p = int i) (d_images directorOut) of
         None \<Rightarrow> st
       | Some plan \<Rightarrow>
           (case generateImage plan (originalBase64 ! i) referenceBase64 llm of
              (resultImg, llm1) \<Rightarrow>
                if truthy resultImg
                then (case safeRunFastGuardrail i (originalBase64 ! i) (the resultImg) llm1 of
                        (guard, llm2) \<Rightarrow>
                          let scores' = scores @
                                [\<lparr>s_index = i, s_score = score guard, s_verdict = verdict guard\<rparr>]
                          in if \<not> pass guard
                             then (case rescueImage plan (originalBase64 ! i) referenceBase64
                                          resultImg llm2 of
                                     (resultImg', llm3) \<Rightarrow>
                                       (enhancedImages[i := (if truthy resultImg' then the resultImg'
                                                             else originalBase64 ! i)],
                                        scores', llm3))
                             else (enhancedImages[i := the resultImg], scores', llm2))
                else (enhancedImages[i := originalBase64 ! i], scores, llm1))))"

function enhanceLoop ::
  "DirectorOut \<Rightarrow> string list \<Rightarrow> string list \<Rightarrow> nat \<Rightarrow> nat \<Rightarrow> enhanceState \<Rightarrow> enhanceState" where
  "enhanceLoop directorOut originalBase64 referenceBase64 i n st =
     (if i < n
      then enhanceLoop directorOut originalBase64 referenceBase64 (Suc i) n
             (enhanceImage directorOut originalBase64 referenceBase64 i st)
      else st)"
  by pat_completeness auto
termination
  by (relation "measure (\<lambda>(directorOut, originalBase64, referenceBase64, i, n, st). n - i)") auto

declare enhanceLoop.simps [simp del]

text \<open>
  The whole enhancement loop of one invocation, from the array
  \<open>new Array(req.images.length).fill("")\<close> and no scores.
\<close>

definition enhanceAll ::
  "DirectorOut \<Rightarrow> string list \<Rightarrow> string list \<Rightarrow> LLMRouter \<Rightarrow> enhanceState" where
  "enhanceAll directorOut originalBase64 referenceBase64 llm =
     enhanceLoop directorOut originalBase64 referenceBase64 0 (length originalBase64)
       (replicate (length originalBase64) [], [], llm)"

definition EMPATHY_PREFIX :: string where
  "EMPATHY_PREFIX =
     [CHR 0xE6, CHR 0x94, CHR 0xB6, CHR 0xE5, CHR 0x88, CHR 0xB0, CHR 0xE4, CHR 0xBD, CHR 0xA0,
      CHR 0xE7, CHR 0x9A, CHR 0x84, CHR 0xE5, CHR 0x88, CHR 0x86, CHR 0xE4, CHR 0xBA, CHR 0xAB,
      CHR 0xEF, CHR 0xBC, CHR 0x9A, CHR 0xE3, CHR 0x80, CHR 0x8C]"

definition EMPATHY_SUFFIX :: string where
  "EMPATHY_SUFFIX = [CHR 0xE3, CHR 0x80, CHR 0x8D]"

definition fallbackReply :: "UserRequest \<Rightarrow> string" where
  "fallbackReply req =
     (if raw_text req \<noteq> [] then EMPATHY_PREFIX @ raw_text req @ EMPATHY_SUFFIX
      else ''Thanks for sharing. I am here with you.'')"

text \<open>
  The empathic reply: in the \<open>catch\<close> block the result of the \<open>fast\<close> retry is
  assigned to \<open>empathicReply\<close>, and the statement after the inner \<open>try\<close> assigns the
  fallback text to the same variable.
\<close>

definition empathyStage :: "UserRequest \<Rightarrow> LLMRouter \<Rightarrow> string \<times> LLMRouter" where
  "empathyStage req llm =
     (case callText EMPATHY [TextPart (raw_text req)] ''Respond as a warm friend.'' llm of
        (Inr reply, llm1) \<Rightarrow> (reply, llm1)
      | (Inl err, llm1) \<Rightarrow>
          (case (if getMode llm1 = quality
                 then (case callTextWithMode fast EMPATHY [TextPart (raw_text req)]
                              ''Respond as a warm friend.'' llm1 of
                         (Inr reply, llm2) \<Rightarrow> (reply, llm2)
                       | (Inl fallbackError, llm2) \<Rightarrow> ([], llm2))
                 else ([], llm1)) of
             (empathicReply, llm2) \<Rightarrow> (fallbackReply req, llm2)))"

definition fallbackCopy :: "UserRequest \<Rightarrow> GeneratedCopy" where
  "fallbackCopy req = \<lparr>title = ''Draft'', main_text = raw_text req, hash_tags = []\<rparr>"

text \<open>The caption: the same shape as the empathic reply.\<close>

definition copyStage :: "UserRequest \<Rightarrow> LLMRouter \<Rightarrow> GeneratedCopy \<times> LLMRouter" where
  "copyStage req llm =
     (case callJson COPY [TextPart (raw_text req)] ''Create high-impact post.'' CopySchema
             asCopy llm of
        (Inr c, llm1) \<Rightarrow> (c, llm1)
      | (Inl err, llm1) \<Rightarrow>
          (case (if getMode llm1 = quality
                 then (case callJsonWithMode fast COPY [TextPart (raw_text req)]
                              ''Create high-impact post.'' CopySchema asCopy llm1 of
                         (Inr c, llm2) \<Rightarrow> (c, llm2)
                       | (Inl fallbackError, llm2) \<Rightarrow> (fallbackCopy req, llm2))
                 else (fallbackCopy req, llm1)) of
             (c, llm2) \<Rightarrow> (fallbackCopy req, llm2)))"

text \<open>
  \<open>fresh\<close> is the identifier that \<open>generateTraceId()\<close> would return (it is built from
  the clock and a random number). The function body never throws in this model: every
  call of a stage is wrapped in a \<open>try\<close>; the outer \<open>catch\<close> rethrows.
\<close>

definition runOrchestrator ::
  "GoogleGenAI \<Rightarrow> string \<Rightarrow> UserRequest \<Rightarrow> thrown + OrchestratorResponse" where
  "runOrchestrator api fresh req =
     (let tid = (case traceId req of None \<Rightarrow> fresh | Some t \<Rightarrow> if t = [] then fresh else t);
          llm = newLLMRouter api req tid;
          originalBase64 = images req;
          referenceBase64 = (case reference_images req of None \<Rightarrow> [] | Some r \<Rightarrow> r)
      in case safeRunUnderstanding req llm of (und, llm1) \<Rightarrow>
         case safeRunVisualDirector req und llm1 of (directorOut, llm2) \<Rightarrow>
         case enhanceAll directorOut originalBase64 referenceBase64 llm2 of
           (enhancedImages, scores, llm3) \<Rightarrow>
         case empathyStage req llm3 of (empathicReply, llm4) \<Rightarrow>
         case copyStage req llm4 of (cpy, llm5) \<Rightarrow>
         Inr \<lparr>resp_traceId = tid,
              understanding = \<lparr>story_core = u_story_core und, scene = ''V3'', theme = u_mood und\<rparr>,
              visual_director_output = directorOut,
              empathic_reply = empathicReply,
              variants =
                [\<lparr>v_id = tid @ ''_v1'',
                  style_name = ''Amplify Master'',
                  usage_hint = ''Social ready'',
                  creative_rationale = ''Structural relighting and background cleanup'',
                  tone_direction = (case u_suggested_tone und of
                                      None \<Rightarrow> ''Cinematic''
                                    | Some t \<Rightarrow> if t = [] then ''Cinematic'' else t),
                  visual_direction = ''V3 Structural Overhaul'',
                  copy = cpy,
                  enhanced_images_base64 = enhancedImages\<rparr>],
              debugInfo =
                \<lparr>nano_banana_prompts = map nano_prompt_en_v2 (d_images directorOut),
                 llmTrace = getTraces llm5,
                 perImageScores = scores\<rparr>\<rparr>)"

section \<open>index.tsx: the refine handler\<close>

text \<open>
  \<open>handleRefine\<close> of the \<open>App\<close> component, the only caller that sets
  \<open>action: 'refine'\<close>. \<open>currentTraceId\<close> is the component state of that name. The
  result \<open>None\<close> is the branch that alerts and returns; otherwise the handler awaits
  \<open>runOrchestrator\<close> on the request it built.
\<close>

definition handleRefine ::
  "GoogleGenAI \<Rightarrow> string \<Rightarrow> string option \<Rightarrow> UserRequest \<Rightarrow> string \<Rightarrow> RefineMode \<Rightarrow> string
     \<Rightarrow> nat option \<Rightarrow> (thrown + OrchestratorResponse) option" where
  "handleRefine api fresh currentTraceId request variantId rmode instr refineImageIndex =
     (if \<not> truthy currentTraceId then None
      else Some (runOrchestrator api fresh
             (request\<lparr>action := Some refine,
                      traceId := currentTraceId,
                      variant_id := Some variantId,
                      refine_mode := Some rmode,
                      refine_instruction := Some instr,
                      performance_mode := performance_mode request,
                      refine_image_index := refineImageIndex\<rparr>)))"

section \<open>Notions used in the statements\<close>

text \<open>
  The backend client after \<open>j\<close> runs of an action, the outcome of run number \<open>j\<close>
  (from 0), whether \<open>withRetries\<close> accepts an outcome, the error its \<open>catch\<close>
  block sees otherwise, and the trace record it appends for the attempt.
\<close>

fun afterAttempts :: "'a action \<Rightarrow> nat \<Rightarrow> GoogleGenAI \<Rightarrow> GoogleGenAI" where
  "afterAttempts act 0 g = g"
| "afterAttempts act (Suc j) g = afterAttempts act j (snd (act g))"

definition attemptResult :: "'a action \<Rightarrow> nat \<Rightarrow> GoogleGenAI \<Rightarrow> nat \<times> (thrown + 'a)" where
  "attemptResult act j g = fst (act (afterAttempts act j g))"

definition accepted :: "('a \<Rightarrow> bool) \<Rightarrow> thrown + 'a \<Rightarrow> bool" where
  "accepted isValid r = (case r of Inl e \<Rightarrow> False | Inr v \<Rightarrow> isValid v)"

definition caught :: "AgentId \<Rightarrow> thrown + 'a \<Rightarrow> thrown" where
  "caught agentId r = (case r of Inl e \<Rightarrow> e | Inr v \<Rightarrow> invalidResponse agentId)"

definition attemptTrace ::
  "AgentId \<Rightarrow> ModelSpec \<Rightarrow> ('a \<Rightarrow> bool) \<Rightarrow> Mode option \<Rightarrow> Mode \<Rightarrow> nat \<Rightarrow> nat \<times> (thrown + 'a)
     \<Rightarrow> LLMTraceRecord" where
  "attemptTrace agentId spec isValid modeOverride m attempt out =
     \<lparr>tr_agent = agentId,
      tr_mode = (case modeOverride of Some x \<Rightarrow> x | None \<Rightarrow> m),
      tr_model = model spec,
      tr_temperature = temperature spec,
      tr_responseMimeType = responseMimeType spec,
      tr_retriesUsed = attempt,
      tr_durationMs = fst out,
      tr_ok = accepted isValid (snd out),
      tr_error = (if accepted isValid (snd out) then None
                  else Some (message (caught agentId (snd out))))\<rparr>"

text \<open>
  \<open>extends llm llm'\<close>: the router \<open>llm'\<close> has the log of \<open>llm\<close> as a prefix of
  its own, and the same mode, table and trace id.
\<close>

definition extends :: "LLMRouter \<Rightarrow> LLMRouter \<Rightarrow> bool" where
  "extends llm llm' =
     (prefix (traces llm) (traces llm') \<and> mode llm' = mode llm \<and> matrix llm' = matrix llm
      \<and> router_traceId llm' = router_traceId llm)"

section \<open>Concrete requests and backends\<close>

text \<open>
  The request of the specification's scenarios (one image, fast mode), a backend that is
  down, and one that fails on the first call only.
\<close>

definition req1 :: UserRequest where
  "req1 =
     \<lparr>images = [''data:image/png;base64,AAAA''], reference_images = None,
      raw_text = ''today I'' @ sq @ ''m tired'', platform = wechat_moments, mood_user = tired,
      intent_user = seek_empathy, language = Some en, enable_l4_loop = None,
      performance_mode = Some fast, action = Some create, traceId = None, variant_id = None,
      refine_mode = None, refine_instruction = None, refine_target = None,
      refine_from_original = None, refine_image_index = None\<rparr>"

definition textResponse :: "string \<Rightarrow> Response" where
  "textResponse t = \<lparr>res_text = Some t, res_parts = None, res_json = None\<rparr>"

definition down :: GoogleGenAI where
  "down = \<lparr>respond = (\<lambda>h c. (1, Throws (Error ''503''))), sent = []\<rparr>"

definition flaky :: GoogleGenAI where
  "flaky =
     \<lparr>respond = (\<lambda>h c. if h = [] then (3, Throws (Error ''503''))
                        else (4, Returns (textResponse ''ok''))),
      sent = []\<rparr>"

definition empathySpec :: ModelSpec where
  "empathySpec = (mkSpec ''gemini-2.5-flash'' (5/10) None 2)\<lparr>maxOutputTokens := Some 100\<rparr>"

definition empathyAction :: "string action" where
  "empathyAction = textAction empathySpec [TextPart ''hi''] ''Respond as a warm friend.''"

section \<open>The stages of one invocation\<close>

text \<open>
  The states of one invocation of \<open>runOrchestrator\<close>: the result and the router after
  each stage, in the order of the function body.
\<close>

definition traceIdOf :: "string \<Rightarrow> UserRequest \<Rightarrow> string" where
  "traceIdOf fresh req =
     (case traceId req of None \<Rightarrow> fresh | Some t \<Rightarrow> if t = [] then fresh else t)"

definition referencesOf :: "UserRequest \<Rightarrow> string list" where
  "referencesOf req = (case reference_images req of None \<Rightarrow> [] | Some r \<Rightarrow> r)"

definition afterUnderstanding ::
  "GoogleGenAI \<Rightarrow> string \<Rightarrow> UserRequest \<Rightarrow> UnderstandingOut \<times> LLMRouter" where
  "afterUnderstanding api fresh req =
     safeRunUnderstanding req (newLLMRouter api req (traceIdOf fresh req))"

definition afterDirection ::
  "GoogleGenAI \<Rightarrow> string \<Rightarrow> UserRequest \<Rightarrow> DirectorOut \<times> LLMRouter" where
  "afterDirection api fresh req =
     (case afterUnderstanding api fresh req of (und, llm1) \<Rightarrow>
        safeRunVisualDirector req und llm1)"

definition afterEnhancement :: "GoogleGenAI \<Rightarrow> string \<Rightarrow> UserRequest \<Rightarrow> enhanceState" where
  "afterEnhancement api fresh req =
     (case afterDirection api fresh req of (directorOut, llm2) \<Rightarrow>
        enhanceAll directorOut (images req) (referencesOf req) llm2)"

definition afterEmpathy :: "GoogleGenAI \<Rightarrow> string \<Rightarrow> UserRequest \<Rightarrow> string \<times> LLMRouter" where
  "afterEmpathy api fresh req =
     (case afterEnhancement api fresh req of (enhancedImages, scores, llm3) \<Rightarrow>
        empathyStage req llm3)"

definition afterCopy :: "GoogleGenAI \<Rightarrow> string \<Rightarrow> UserRequest \<Rightarrow> GeneratedCopy \<times> LLMRouter" where
  "afterCopy api fresh req =
     (case afterEmpathy api fresh req of (empathicReply, llm4) \<Rightarrow> copyStage req llm4)"

text \<open>The scenario request with the advanced loop switched on.\<close>

definition req1q :: UserRequest where
  "req1q = req1\<lparr>enable_l4_loop := Some True\<rparr>"

text \<open>
  The scenario request without images in \<open>quality\<close> mode, and a backend on which
  only the model of the \<open>fast\<close> text stages answers.
\<close>

definition req0q :: UserRequest where
  "req0q = req1\<lparr>images := [], enable_l4_loop := Some True\<rparr>"

definition fastCopy :: GeneratedCopy where
  "fastCopy = \<lparr>title = ''Tired'', main_text = ''Long day, slow evening.'', hash_tags = [''#tired'']\<rparr>"

definition fastTierOnly :: GoogleGenAI where
  "fastTierOnly =
     \<lparr>respond = (\<lambda>h c. if call_model c = ''gemini-2.5-flash''
                        then (5, Returns \<lparr>res_text = Some ''Hang in there.'', res_parts = None,
                                          res_json = Some (JCopy fastCopy)\<rparr>)
                        else (1, Throws (Error ''503''))),
      sent = []\<rparr>"

text \<open>A refine request that carries no trace id.\<close>

definition reqRefine :: UserRequest where
  "reqRefine = req1\<lparr>action := Some refine, refine_mode := Some lighter,
                      refine_instruction := Some ''shorter'', variant_id := Some ''t0_v1''\<rparr>"

text \<open>The scenario request without images.\<close>

definition req0 :: UserRequest where
  "req0 = req1\<lparr>images := []\<rparr>"

text \<open>
  The state of the enhancement loop of one invocation when the iteration for index
  \<open>i\<close> starts, and the router in it.
\<close>

definition enhanceStateAt :: "GoogleGenAI \<Rightarrow> string \<Rightarrow> UserRequest \<Rightarrow> nat \<Rightarrow> enhanceState" where
  "enhanceStateAt api fresh req i =
     (case afterDirection api fresh req of (directorOut, llm2) \<Rightarrow>
        enhanceLoop directorOut (images req) (referencesOf req) 0 i
          (replicate (length (images req)) [], [], llm2))"

definition routerAtImage :: "GoogleGenAI \<Rightarrow> string \<Rightarrow> UserRequest \<Rightarrow> nat \<Rightarrow> LLMRouter" where
  "routerAtImage api fresh req i = snd (snd (enhanceStateAt api fresh req i))"

text \<open>
  Image generation fails in both tiers: the call under the current mode throws and, in
  \<open>quality\<close> mode, the call forced to \<open>fast\<close> throws or returns no image.
\<close>

definition generationFails ::
  "DirectorImagePlan \<Rightarrow> string \<Rightarrow> string list \<Rightarrow> LLMRouter \<Rightarrow> bool" where
  "generationFails plan original refs llm =
     (case callImageGen (nano_prompt_en_v2 plan) original refs llm of
        (Inr img, llm1) \<Rightarrow> False
      | (Inl e, llm1) \<Rightarrow>
          (mode llm = quality \<longrightarrow>
             (case callImageGenWithMode fast (nano_prompt_en_v2 plan) original refs llm1 of
                (Inr img, llm2) \<Rightarrow> \<not> truthy img
              | (Inl e2, llm2) \<Rightarrow> True)))"

text \<open>
  A request with two images and a backend whose director plans the first one only; a
  backend whose guardrail rejects the first image; a quality evaluator that asks for a
  cleanup; a router whose table has no evaluator.
\<close>

definition req2 :: UserRequest where
  "req2 = req1\<lparr>images := [''data:image/png;base64,AAAA'', ''data:image/png;base64,BBBB'']\<rparr>"

definition onePlan :: DirectorOut where
  "onePlan = \<lparr>d_images = [\<lparr>image_index = 0, nano_prompt_en_v2 = ''Relight [SUBJECT].''\<rparr>]\<rparr>"

definition directorOnly :: GoogleGenAI where
  "directorOnly =
     \<lparr>respond = (\<lambda>h c. if cfg_responseSchema (call_config c) = Some DirectorSchema
                        then (9, Returns \<lparr>res_text = Some ''{}'', res_parts = None,
                                          res_json = Some (JDirector onePlan)\<rparr>)
                        else (1, Throws (Error ''503''))),
      sent = []\<rparr>"

definition imagePart :: "string \<Rightarrow> Response" where
  "imagePart dat =
     \<lparr>res_text = None,
      res_parts = Some [\<lparr>part_text = None, part_inlineData = Some dat\<rparr>],
      res_json = None\<rparr>"

definition rejectedGuard :: FastGuardrailOut where
  "rejectedGuard =
     \<lparr>g_image_index = None, pass = False, score = Some (3/10), verdict = ''ARTIFACTS'',
      reasons = None, revision_actions = None\<rparr>"

definition rescueBackend :: GoogleGenAI where
  "rescueBackend =
     \<lparr>respond = (\<lambda>h c.
        if call_model c = ''gemini-2.5-flash-image'' then (20, Returns (imagePart ''ENH''))
        else if call_model c = ''gemini-2.5-flash-lite''
        then (6, Returns \<lparr>res_text = Some ''{}'', res_parts = None,
                          res_json = Some (JGuardrail rejectedGuard)\<rparr>)
        else if call_model c = ''gemini-3-pro-image-preview''
        then (40, Returns (imagePart ''RESCUE''))
        else (1, Throws (Error ''503''))),
      sent = []\<rparr>"

definition relight :: DirectorImagePlan where
  "relight = \<lparr>image_index = 0, nano_prompt_en_v2 = ''Relight the desk.''\<rparr>"

definition cleanupVerdict :: ImageQAOut where
  "cleanupVerdict =
     \<lparr>qa_pass = False, qa_score = Some (4/10), qa_verdict = ''NEEDS_CLEANUP'',
      qa_reasons = None, qa_revision_actions = None\<rparr>"

definition qaBackend :: GoogleGenAI where
  "qaBackend =
     \<lparr>respond = (\<lambda>h c. (6, Returns \<lparr>res_text = Some ''{}'', res_parts = None,
                                    res_json = Some (JImageQA cleanupVerdict)\<rparr>)),
      sent = []\<rparr>"

definition noEvaluator :: LLMRouter where
  "noEvaluator =
     (newLLMRouter down req1 ''t1'')
       \<lparr>matrix := (\<lambda>m a. if a = FAST_GUARDRAIL \<or> a = IMAGE_QA then None else MODEL_MATRIX m a)\<rparr>"

text \<open>
  A backend whose guardrail rejects the first image and whose rescue model fails on its
  first two calls and answers the third.
\<close>

definition rescueFlaky :: GoogleGenAI where
  "rescueFlaky =
     \<lparr>respond = (\<lambda>h c.
        if call_model c = ''gemini-2.5-flash-image'' then (20, Returns (imagePart ''ENH''))
        else if call_model c = ''gemini-2.5-flash-lite''
        then (6, Returns \<lparr>res_text = Some ''{}'', res_parts = None,
                          res_json = Some (JGuardrail rejectedGuard)\<rparr>)
        else if call_model c = ''gemini-3-pro-image-preview''
                \<and> 2 \<le> length (filter (\<lambda>p. call_model p = ''gemini-3-pro-image-preview'') h)
        then (40, Returns (imagePart ''RESCUE''))
        else (1, Throws (Error ''503''))),
      sent = []\<rparr>"

section \<open>The retry loop\<close>

lemma retryLoop_step:
  "retryLoop agentId spec act isValid mo (Suc n) a le llm =
     (let out = fst (act (ai llm));
          llm1 = llm\<lparr>ai := snd (act (ai llm)),
                     traces := traces llm @ [attemptTrace agentId spec isValid mo (mode llm) a out]\<rparr>
      in if accepted isValid (snd out) then (snd out, llm1)
         else retryLoop agentId spec act isValid mo n (Suc a) (caught agentId (snd out)) llm1)"
  by (cases "act (ai llm)" rule: prod.exhaust)
     (auto simp: Let_def recordTrace_def attemptTrace_def accepted_def caught_def
           split: prod.splits sum.splits option.splits)

lemma attemptResult_0: "attemptResult act 0 g = fst (act g)"
  by (simp add: attemptResult_def)

lemma attemptResult_Suc: "attemptResult act (Suc j) g = attemptResult act j (snd (act g))"
  by (simp add: attemptResult_def)

lemma map_upt_shift: "map f [0..<Suc k] = f 0 # map (\<lambda>j. f (Suc j)) [0..<k]"
  by (simp add: upt_rec[of 0 "Suc k"] map_Suc_upt[symmetric] del: upt_Suc)

lemma retryLoop_spec:
  "retryLoop agentId spec act isValid mo n a le llm = (r, llm') \<Longrightarrow>
   \<exists>k\<le>n. (0 < n \<longrightarrow> 0 < k)
     \<and> (\<forall>j. Suc j < k \<longrightarrow> \<not> accepted isValid (snd (attemptResult act j (ai llm))))
     \<and> ai llm' = afterAttempts act k (ai llm)
     \<and> traces llm' = traces llm @
          map (\<lambda>j. attemptTrace agentId spec isValid mo (mode llm) (a + j)
                     (attemptResult act j (ai llm))) [0..<k]
     \<and> mode llm' = mode llm \<and> matrix llm' = matrix llm \<and> router_traceId llm' = router_traceId llm
     \<and> (case r of
           Inr v \<Rightarrow> 0 < k \<and> snd (attemptResult act (k - 1) (ai llm)) = Inr v \<and> isValid v
         | Inl e \<Rightarrow> k = n \<and>
             (if n = 0 then e = le
              else \<not> accepted isValid (snd (attemptResult act (n - 1) (ai llm)))
                   \<and> e = caught agentId (snd (attemptResult act (n - 1) (ai llm)))))"
proof (induction n arbitrary: a le llm)
  case 0
  then show ?case by auto
next
  case (Suc n)
  let ?out = "fst (act (ai llm))"
  let ?llm1 = "llm\<lparr>ai := snd (act (ai llm)),
                    traces := traces llm @ [attemptTrace agentId spec isValid mo (mode llm) a ?out]\<rparr>"
  show ?case
  proof (cases "accepted isValid (snd ?out)")
    case True
    with Suc.prems[unfolded retryLoop_step Let_def] have r: "r = snd ?out" and l: "llm' = ?llm1"
      by simp_all
    from True obtain v where v: "snd ?out = Inr v" "isValid v"
      by (auto simp: accepted_def split: sum.splits)
    show ?thesis
      by (rule exI[of _ 1]) (simp add: r l v attemptResult_0)
  next
    case False
    with Suc.prems[unfolded retryLoop_step Let_def] have
      rec: "retryLoop agentId spec act isValid mo n (Suc a) (caught agentId (snd ?out)) ?llm1 = (r, llm')"
      by simp
    from Suc.IH[OF rec] obtain k where k: "k \<le> n" "0 < n \<longrightarrow> 0 < k"
      "\<forall>j. Suc j < k \<longrightarrow> \<not> accepted isValid (snd (attemptResult act j (ai ?llm1)))"
      "ai llm' = afterAttempts act k (ai ?llm1)"
      "traces llm' = traces ?llm1 @
          map (\<lambda>j. attemptTrace agentId spec isValid mo (mode ?llm1) (Suc a + j)
                     (attemptResult act j (ai ?llm1))) [0..<k]"
      "mode llm' = mode ?llm1" "matrix llm' = matrix ?llm1" "router_traceId llm' = router_traceId ?llm1"
      "(case r of
           Inr v \<Rightarrow> 0 < k \<and> snd (attemptResult act (k - 1) (ai ?llm1)) = Inr v \<and> isValid v
         | Inl e \<Rightarrow> k = n \<and>
             (if n = 0 then e = caught agentId (snd ?out)
              else \<not> accepted isValid (snd (attemptResult act (n - 1) (ai ?llm1)))
                   \<and> e = caught agentId (snd (attemptResult act (n - 1) (ai ?llm1)))))"
      by blast
    have shift: "\<And>j. attemptResult act j (ai ?llm1) = attemptResult act (Suc j) (ai llm)"
      by (simp add: attemptResult_Suc)
    have a1: "\<forall>j. Suc j < Suc k \<longrightarrow> \<not> accepted isValid (snd (attemptResult act j (ai llm)))"
    proof (intro allI impI)
      fix j assume "Suc j < Suc k"
      show "\<not> accepted isValid (snd (attemptResult act j (ai llm)))"
      proof (cases j)
        case 0 with False show ?thesis by (simp add: attemptResult_0)
      next
        case (Suc i)
        with \<open>Suc j < Suc k\<close> have "Suc i < k" by simp
        with k(3) Suc show ?thesis by (simp add: attemptResult_Suc)
      qed
    qed
    have a2: "ai llm' = afterAttempts act (Suc k) (ai llm)"
      using k(4) by simp
    have a3: "traces llm' = traces llm @
          map (\<lambda>j. attemptTrace agentId spec isValid mo (mode llm) (a + j)
                     (attemptResult act j (ai llm))) [0..<Suc k]"
      unfolding map_upt_shift using k(5) by (simp add: attemptResult_Suc attemptResult_0)
    have a4: "(case r of
           Inr v \<Rightarrow> 0 < Suc k \<and> snd (attemptResult act (Suc k - 1) (ai llm)) = Inr v \<and> isValid v
         | Inl e \<Rightarrow> Suc k = Suc n \<and>
              \<not> accepted isValid (snd (attemptResult act (Suc n - 1) (ai llm)))
                   \<and> e = caught agentId (snd (attemptResult act (Suc n - 1) (ai llm))))"
    proof (cases r)
      case (Inr v)
      with k(9) have "0 < k" "snd (attemptResult act (k - 1) (ai ?llm1)) = Inr v" "isValid v" by auto
      then show ?thesis using Inr by (cases k) (simp_all add: attemptResult_Suc)
    next
      case (Inl e)
      show ?thesis
      proof (cases n)
        case 0
        with Inl k(9) False show ?thesis by (simp add: attemptResult_0)
      next
        case (Suc m)
        with Inl k(9) show ?thesis by (simp add: attemptResult_Suc)
      qed
    qed
    show ?thesis
      apply (rule exI[of _ "Suc k"])
      using k(1) a1 a2 a3 a4 k(6,7,8) by (simp split: sum.splits)
  qed
qed

section \<open>Every operation extends the trace log\<close>

lemma extends_refl: "extends llm llm"
  by (simp add: extends_def)

lemma extends_trans: "extends a b \<Longrightarrow> extends b c \<Longrightarrow> extends a c"
  by (auto simp: extends_def)

lemma withRetries_extends: "extends llm (snd (withRetries agentId spec act isValid mo llm))"
proof -
  obtain r llm' where w: "withRetries agentId spec act isValid mo llm = (r, llm')"
    by (cases "withRetries agentId spec act isValid mo llm")
  from retryLoop_spec[OF w[unfolded withRetries_def] ] show ?thesis
    by (auto simp: extends_def w)
qed

lemma callJson_extends: "extends llm (snd (callJson agentId contents sys schema cast llm))"
  by (simp add: callJson_def withRetries_extends extends_refl split: option.splits)

lemma callText_extends: "extends llm (snd (callText agentId contents sys llm))"
  by (simp add: callText_def withRetries_extends extends_refl split: option.splits)

lemma callTextWithMode_extends: "extends llm (snd (callTextWithMode m agentId contents sys llm))"
  by (simp add: callTextWithMode_def withRetries_extends extends_refl split: option.splits)

lemma callJsonWithMode_extends:
  "extends llm (snd (callJsonWithMode m agentId contents sys schema cast llm))"
  by (simp add: callJsonWithMode_def withRetries_extends extends_refl split: option.splits)

lemma callImageGen_extends: "extends llm (snd (callImageGen prompt img refs llm))"
  by (simp add: callImageGen_def callImageGenWithSpec_def withRetries_extends extends_refl
           split: option.splits)

lemma callImageGenWithMode_extends: "extends llm (snd (callImageGenWithMode m prompt img refs llm))"
  by (simp add: callImageGenWithMode_def callImageGenWithSpec_def withRetries_extends extends_refl
           split: option.splits)

lemma callJson_extendsD:
  "callJson agentId contents sys schema cast llm = (r, llm') \<Longrightarrow> extends llm llm'"
  using callJson_extends[of llm agentId contents sys schema cast] by simp

lemma callText_extendsD: "callText agentId contents sys llm = (r, llm') \<Longrightarrow> extends llm llm'"
  using callText_extends[of llm agentId contents sys] by simp

lemma callTextWithMode_extendsD:
  "callTextWithMode m agentId contents sys llm = (r, llm') \<Longrightarrow> extends llm llm'"
  using callTextWithMode_extends[of llm m agentId contents sys] by simp

lemma callJsonWithMode_extendsD:
  "callJsonWithMode m agentId contents sys schema cast llm = (r, llm') \<Longrightarrow> extends llm llm'"
  using callJsonWithMode_extends[of llm m agentId contents sys schema cast] by simp

lemma callImageGen_extendsD:
  "callImageGen prompt img refs llm = (r, llm') \<Longrightarrow> extends llm llm'"
  using callImageGen_extends[of llm prompt img refs] by simp

lemma callImageGenWithMode_extendsD:
  "callImageGenWithMode m prompt img refs llm = (r, llm') \<Longrightarrow> extends llm llm'"
  using callImageGenWithMode_extends[of llm m prompt img refs] by simp

lemmas call_extendsD =
  callJson_extendsD callText_extendsD callTextWithMode_extendsD callJsonWithMode_extendsD
  callImageGen_extendsD callImageGenWithMode_extendsD

lemma safeRunUnderstanding_extends:
  "safeRunUnderstanding req llm = (u, llm') \<Longrightarrow> extends llm llm'"
  unfolding safeRunUnderstanding_def runUnderstanding_def
  by (auto split: prod.splits sum.splits if_splits dest!: call_extendsD intro: extends_trans)

lemma safeRunVisualDirector_extends:
  "safeRunVisualDirector req und llm = (d, llm') \<Longrightarrow> extends llm llm'"
  unfolding safeRunVisualDirector_def runVisualDirector_def
  by (auto split: prod.splits sum.splits if_splits dest!: call_extendsD
           intro: extends_trans extends_refl)

lemma runFastGuardrail_extends:
  "runFastGuardrail i original enhanced llm = (r, llm') \<Longrightarrow> extends llm llm'"
  unfolding runFastGuardrail_def Let_def
  by (auto split: prod.splits sum.splits if_splits dest!: call_extendsD
           intro: extends_trans extends_refl)

lemma safeRunFastGuardrail_extends:
  "safeRunFastGuardrail i original enhanced llm = (g, llm') \<Longrightarrow> extends llm llm'"
  unfolding safeRunFastGuardrail_def
  by (auto split: prod.splits sum.splits if_splits
           dest!: call_extendsD runFastGuardrail_extends intro: extends_trans)

lemma generateImage_extends:
  "generateImage plan original refs llm = (r, llm') \<Longrightarrow> extends llm llm'"
  unfolding generateImage_def
  by (auto split: prod.splits sum.splits if_splits dest!: call_extendsD intro: extends_trans)

lemma rescueImage_extends:
  "rescueImage plan original refs img llm = (r, llm') \<Longrightarrow> extends llm llm'"
  unfolding rescueImage_def
  by (auto split: prod.splits sum.splits if_splits dest!: call_extendsD intro: extends_trans)

lemma enhanceImage_extends:
  "enhanceImage d orig refs i (enh, sc, llm) = (enh', sc', llm') \<Longrightarrow> extends llm llm'"
  unfolding enhanceImage_def Let_def
  by (auto split: prod.splits option.splits if_splits
           dest!: generateImage_extends safeRunFastGuardrail_extends rescueImage_extends
           intro: extends_trans extends_refl)

lemma enhanceLoop_unfold:
  "i < n \<Longrightarrow> enhanceLoop d orig refs i n st =
     enhanceLoop d orig refs (Suc i) n (enhanceImage d orig refs i st)"
  by (subst enhanceLoop.simps) simp

lemma enhanceLoop_done: "\<not> i < n \<Longrightarrow> enhanceLoop d orig refs i n st = st"
  by (subst enhanceLoop.simps) simp

lemma enhanceLoop_extends:
  "enhanceLoop d orig refs i n (enh, sc, llm) = (enh', sc', llm') \<Longrightarrow> extends llm llm'"
proof (induction d orig refs i n "(enh, sc, llm)" arbitrary: enh sc llm rule: enhanceLoop.induct)
  case (1 d orig refs i n)
  show ?case
  proof (cases "i < n")
    case True
    obtain e1 s1 l1 where b: "enhanceImage d orig refs i (enh, sc, llm) = (e1, s1, l1)"
      by (cases "enhanceImage d orig refs i (enh, sc, llm)") auto
    from "1.prems" b have "enhanceLoop d orig refs (Suc i) n (e1, s1, l1) = (enh', sc', llm')"
      by (simp only: enhanceLoop_unfold[OF True])
    from "1.hyps"[OF True b this] enhanceImage_extends[OF b] show ?thesis
      by (blast intro: extends_trans)
  next
    case False
    from "1.prems" enhanceLoop_done[OF False, of d orig refs "(enh, sc, llm)"] show ?thesis
      by (simp add: extends_refl)
  qed
qed

lemma enhanceAll_extends:
  "enhanceAll d orig refs llm = (enh', sc', llm') \<Longrightarrow> extends llm llm'"
  unfolding enhanceAll_def by (rule enhanceLoop_extends)

lemma empathyStage_extends: "empathyStage req llm = (r, llm') \<Longrightarrow> extends llm llm'"
  unfolding empathyStage_def
  by (auto split: prod.splits sum.splits if_splits dest!: call_extendsD intro: extends_trans)

lemma copyStage_extends: "copyStage req llm = (r, llm') \<Longrightarrow> extends llm llm'"
  unfolding copyStage_def
  by (auto split: prod.splits sum.splits if_splits dest!: call_extendsD intro: extends_trans)

section \<open>The enhancement loop\<close>

lemma length_enhanceImage:
  "length (fst (enhanceImage d orig refs i st)) = length (fst st)"
  unfolding enhanceImage_def Let_def
  by (simp split: prod.splits option.splits)

lemma enhanceImage_other:
  "j \<noteq> i \<Longrightarrow> fst (enhanceImage d orig refs i st) ! j = fst st ! j"
  unfolding enhanceImage_def Let_def
  by (simp split: prod.splits option.splits)

lemma length_enhanceLoop:
  "length (fst (enhanceLoop d orig refs i n st)) = length (fst st)"
proof (induction d orig refs i n st rule: enhanceLoop.induct)
  case (1 d orig refs i n st)
  show ?case
  proof (cases "i < n")
    case True
    with "1.IH"[OF True] show ?thesis
      by (simp only: enhanceLoop_unfold[OF True] length_enhanceImage)
  next
    case False
    then show ?thesis using enhanceLoop_done[of i n d orig refs st] by simp
  qed
qed

lemma enhanceLoop_below:
  "j < i \<Longrightarrow> fst (enhanceLoop d orig refs i n st) ! j = fst st ! j"
proof (induction d orig refs i n st rule: enhanceLoop.induct)
  case (1 d orig refs i n st)
  show ?case
  proof (cases "i < n")
    case True
    from "1.prems" have ji: "j < Suc i" "j \<noteq> i" by simp_all
    have "fst (enhanceLoop d orig refs (Suc i) n (enhanceImage d orig refs i st)) ! j =
          fst (enhanceImage d orig refs i st) ! j"
      by (rule "1.IH"[OF True ji(1)])
    also have "\<dots> = fst st ! j"
      by (rule enhanceImage_other[OF ji(2)])
    finally show ?thesis
      by (simp only: enhanceLoop_unfold[OF True])
  next
    case False
    then show ?thesis using enhanceLoop_done[of i n d orig refs st] by simp
  qed
qed

lemma enhanceLoop_split:
  "a \<le> i \<Longrightarrow> i \<le> n \<Longrightarrow>
   enhanceLoop d orig refs a n st = enhanceLoop d orig refs i n (enhanceLoop d orig refs a i st)"
proof (induction d orig refs a i st rule: enhanceLoop.induct)
  case (1 d orig refs a i st)
  show ?case
  proof (cases "a < i")
    case True
    with "1.prems" have an: "a < n" and le: "Suc a \<le> i" by simp_all
    from "1.IH"[OF True le "1.prems"(2)] show ?thesis
      by (simp only: enhanceLoop_unfold[OF an] enhanceLoop_unfold[OF True])
  next
    case False
    with "1.prems" have "a = i" by simp
    then show ?thesis by (simp only: enhanceLoop_done[of i i] less_irrefl not_False_eq_True)
  qed
qed

lemma enhanceLoop_entry:
  assumes "i < n"
  shows "fst (enhanceLoop d orig refs 0 n st) ! i =
         fst (enhanceImage d orig refs i (enhanceLoop d orig refs 0 i st)) ! i"
proof -
  have "enhanceLoop d orig refs 0 n st =
        enhanceLoop d orig refs i n (enhanceLoop d orig refs 0 i st)"
    using assms by (intro enhanceLoop_split) simp_all
  also have "\<dots> = enhanceLoop d orig refs (Suc i) n
          (enhanceImage d orig refs i (enhanceLoop d orig refs 0 i st))"
    by (rule enhanceLoop_unfold[OF assms])
  finally show ?thesis
    by (simp only: enhanceLoop_below[of i "Suc i"] lessI)
qed

section \<open>The retrying executor\<close>

lemma attemptsOf_eq: "attemptsOf spec = nat (max 1 (retries spec))"
  by (simp add: attemptsOf_def max_def)

text \<open>
  C4. \<open>withRetries\<close> runs the action \<open>k\<close> times, with \<open>k\<close> at least 1 and at most
  \<open>max 1 retries\<close>. Every run but the last was not accepted; each run appends exactly
  one trace record, in order, to the log. The result is the value of the last run when
  the validator accepts it, and then no further run is made; otherwise all
  \<open>max 1 retries\<close> runs were made and the error of the last one is thrown. The
  validator that \<open>callJson\<close> and \<open>callJsonWithMode\<close> pass is the default
  \<open>() => true\<close>.
\<close>

theorem withRetries_budget_and_trace:
  "case withRetries agentId spec act isValid modeOverride llm of (r, llm') \<Rightarrow>
     attemptsOf spec = nat (max 1 (retries spec)) \<and>
     (\<exists>k. 0 < k \<and> k \<le> attemptsOf spec
        \<and> (\<forall>j. Suc j < k \<longrightarrow> \<not> accepted isValid (snd (attemptResult act j (ai llm))))
        \<and> ai llm' = afterAttempts act k (ai llm)
        \<and> traces llm' = traces llm @
             map (\<lambda>j. attemptTrace agentId spec isValid modeOverride (mode llm) j
                        (attemptResult act j (ai llm))) [0..<k]
        \<and> (case r of
              Inr v \<Rightarrow> snd (attemptResult act (k - 1) (ai llm)) = Inr v \<and> isValid v
            | Inl e \<Rightarrow> k = attemptsOf spec
                \<and> \<not> accepted isValid (snd (attemptResult act (k - 1) (ai llm)))
                \<and> e = caught agentId (snd (attemptResult act (k - 1) (ai llm)))))"
proof -
  obtain r llm' where w: "withRetries agentId spec act isValid modeOverride llm = (r, llm')"
    by (cases "withRetries agentId spec act isValid modeOverride llm")
  have pos: "0 < attemptsOf spec"
    by (simp add: attemptsOf_def)
  from retryLoop_spec[OF w[unfolded withRetries_def] ] obtain k where k:
    "k \<le> attemptsOf spec" "0 < k"
    "\<forall>j. Suc j < k \<longrightarrow> \<not> accepted isValid (snd (attemptResult act j (ai llm)))"
    "ai llm' = afterAttempts act k (ai llm)"
    "traces llm' = traces llm @
       map (\<lambda>j. attemptTrace agentId spec isValid modeOverride (mode llm) (0 + j)
                  (attemptResult act j (ai llm))) [0..<k]"
    "case r of
       Inr v \<Rightarrow> 0 < k \<and> snd (attemptResult act (k - 1) (ai llm)) = Inr v \<and> isValid v
     | Inl e \<Rightarrow> k = attemptsOf spec \<and>
         (if attemptsOf spec = 0 then e = Null
          else \<not> accepted isValid (snd (attemptResult act (attemptsOf spec - 1) (ai llm)))
               \<and> e = caught agentId (snd (attemptResult act (attemptsOf spec - 1) (ai llm))))"
    using pos by blast
  have last: "case r of
       Inr v \<Rightarrow> snd (attemptResult act (k - 1) (ai llm)) = Inr v \<and> isValid v
     | Inl e \<Rightarrow> k = attemptsOf spec
         \<and> \<not> accepted isValid (snd (attemptResult act (k - 1) (ai llm)))
         \<and> e = caught agentId (snd (attemptResult act (k - 1) (ai llm)))"
    using k(6) pos by (auto split: sum.splits)
  show ?thesis
    unfolding w prod.case
    apply (rule conjI[OF attemptsOf_eq])
    apply (rule exI[of _ k])
    using k(1-5) last by simp
qed

text \<open>
  On the backend that fails once, the second attempt is returned and the log holds the
  failed and the successful attempt; on the backend that is down, both attempts of the
  budget are made and the last error is thrown.
\<close>

theorem withRetries_budget_and_trace_witness:
  "(case withRetries EMPATHY empathySpec empathyAction validText None
           (newLLMRouter flaky req1 ''t1'') of
      (r, llm') \<Rightarrow> r = Inr ''ok'' \<and> map tr_ok (traces llm') = [False, True]
                   \<and> map tr_retriesUsed (traces llm') = [0, 1] \<and> length (sent (ai llm')) = 2)
   \<and> (case withRetries EMPATHY empathySpec empathyAction validText None
           (newLLMRouter down req1 ''t1'') of
      (r, llm') \<Rightarrow> r = Inl (Error ''503'') \<and> map tr_ok (traces llm') = [False, False]
                   \<and> length (sent (ai llm')) = 2)
   \<and> (\<exists>k. 0 < k \<and> k \<le> attemptsOf empathySpec
        \<and> (\<forall>j. Suc j < k \<longrightarrow>
              \<not> accepted validText (snd (attemptResult empathyAction j flaky)))
        \<and> traces (snd (withRetries EMPATHY empathySpec empathyAction validText None
                          (newLLMRouter flaky req1 ''t1''))) =
            map (\<lambda>j. attemptTrace EMPATHY empathySpec validText None fast j
                       (attemptResult empathyAction j flaky)) [0..<k])"
proof -
  have a: "case withRetries EMPATHY empathySpec empathyAction validText None
           (newLLMRouter flaky req1 ''t1'') of
      (r, llm') \<Rightarrow> r = Inr ''ok'' \<and> map tr_ok (traces llm') = [False, True]
                   \<and> map tr_retriesUsed (traces llm') = [0, 1] \<and> length (sent (ai llm')) = 2"
    by code_simp
  have b: "case withRetries EMPATHY empathySpec empathyAction validText None
           (newLLMRouter down req1 ''t1'') of
      (r, llm') \<Rightarrow> r = Inl (Error ''503'') \<and> map tr_ok (traces llm') = [False, False]
                   \<and> length (sent (ai llm')) = 2"
    by code_simp
  have m: "mode (newLLMRouter flaky req1 ''t1'') = fast" "ai (newLLMRouter flaky req1 ''t1'') = flaky"
    "traces (newLLMRouter flaky req1 ''t1'') = []"
    by (simp_all add: newLLMRouter_def req1_def)
  from withRetries_budget_and_trace[where agentId = EMPATHY and spec = empathySpec
        and act = empathyAction and isValid = validText and modeOverride = None
        and llm = "newLLMRouter flaky req1 ''t1''"]
  have c: "\<exists>k. 0 < k \<and> k \<le> attemptsOf empathySpec
        \<and> (\<forall>j. Suc j < k \<longrightarrow>
              \<not> accepted validText (snd (attemptResult empathyAction j flaky)))
        \<and> traces (snd (withRetries EMPATHY empathySpec empathyAction validText None
                          (newLLMRouter flaky req1 ''t1''))) =
            map (\<lambda>j. attemptTrace EMPATHY empathySpec validText None fast j
                       (attemptResult empathyAction j flaky)) [0..<k]"
    unfolding m by (auto split: prod.splits)
  from a b c show ?thesis by blast
qed

section \<open>The response in terms of the stages\<close>

lemma runOrchestrator_stages:
  "\<exists>resp. runOrchestrator api fresh req = Inr resp
     \<and> resp_traceId resp = traceIdOf fresh req
     \<and> visual_director_output resp = fst (afterDirection api fresh req)
     \<and> map enhanced_images_base64 (variants resp) = [fst (afterEnhancement api fresh req)]
     \<and> perImageScores (debugInfo resp) = fst (snd (afterEnhancement api fresh req))
     \<and> empathic_reply resp = fst (afterEmpathy api fresh req)
     \<and> map copy (variants resp) = [fst (afterCopy api fresh req)]
     \<and> llmTrace (debugInfo resp) = traces (snd (afterCopy api fresh req))"
  unfolding runOrchestrator_def afterCopy_def afterEmpathy_def afterEnhancement_def
    afterDirection_def afterUnderstanding_def traceIdOf_def referencesOf_def Let_def getTraces_def
  by (simp split: prod.splits)

section \<open>The fallback cascade of each stage\<close>

lemma understanding_cascade:
  "case runUnderstanding req llm of
     (Inr u, llm1) \<Rightarrow> safeRunUnderstanding req llm = (u, llm1)
   | (Inl e, llm1) \<Rightarrow>
       (mode llm = fast \<longrightarrow> safeRunUnderstanding req llm = (buildFallbackUnderstanding req, llm1))
       \<and> (mode llm = quality \<longrightarrow>
            snd (safeRunUnderstanding req llm) =
            snd (callJsonWithMode fast UNDERSTANDING [TextPart (raw_text req)]
                   UNDERSTANDING_SYSTEM UnderstandingSchema asUnderstanding llm1))"
proof -
  obtain r llm1 where p: "runUnderstanding req llm = (r, llm1)"
    by (cases "runUnderstanding req llm")
  then have "extends llm llm1"
    by (auto simp: runUnderstanding_def dest: callJson_extendsD)
  then have m: "mode llm1 = mode llm" by (simp add: extends_def)
  show ?thesis
    by (simp add: p safeRunUnderstanding_def getMode_def m split: sum.splits prod.splits)
qed

lemma director_cascade:
  "images req \<noteq> [] \<longrightarrow>
   (case runVisualDirector req und llm of
     (Inr d, llm1) \<Rightarrow> safeRunVisualDirector req und llm = (d, llm1)
   | (Inl e, llm1) \<Rightarrow>
       (mode llm = fast \<longrightarrow>
          safeRunVisualDirector req und llm =
            (rewritePlans req und (buildFallbackDirector req und), llm1))
       \<and> (mode llm = quality \<longrightarrow>
            snd (safeRunVisualDirector req und llm) =
            snd (callJsonWithMode fast VISUAL_DIRECTOR (directorContents req) DIRECTOR_SYSTEM
                   DirectorSchema asDirector llm1)))"
proof
  assume ne: "images req \<noteq> []"
  obtain r llm1 where p: "runVisualDirector req und llm = (r, llm1)"
    by (cases "runVisualDirector req und llm")
  then have "extends llm llm1"
    by (auto simp: runVisualDirector_def dest: callJson_extendsD split: prod.splits sum.splits)
  then have m: "mode llm1 = mode llm" by (simp add: extends_def)
  show "case runVisualDirector req und llm of
     (Inr d, llm1) \<Rightarrow> safeRunVisualDirector req und llm = (d, llm1)
   | (Inl e, llm1) \<Rightarrow>
       (mode llm = fast \<longrightarrow>
          safeRunVisualDirector req und llm =
            (rewritePlans req und (buildFallbackDirector req und), llm1))
       \<and> (mode llm = quality \<longrightarrow>
            snd (safeRunVisualDirector req und llm) =
            snd (callJsonWithMode fast VISUAL_DIRECTOR (directorContents req) DIRECTOR_SYSTEM
                   DirectorSchema asDirector llm1))"
    by (simp add: p ne safeRunVisualDirector_def getMode_def m split: sum.splits prod.splits)
qed

lemma generation_cascade:
  "case callImageGen (nano_prompt_en_v2 plan) original refs llm of
     (Inr img, llm1) \<Rightarrow> generateImage plan original refs llm = (img, llm1)
   | (Inl e, llm1) \<Rightarrow>
       (mode llm = fast \<longrightarrow> generateImage plan original refs llm = (None, llm1))
       \<and> (mode llm = quality \<longrightarrow>
            snd (generateImage plan original refs llm) =
            snd (callImageGenWithMode fast (nano_prompt_en_v2 plan) original refs llm1))"
proof -
  obtain r llm1 where p: "callImageGen (nano_prompt_en_v2 plan) original refs llm = (r, llm1)"
    by (cases "callImageGen (nano_prompt_en_v2 plan) original refs llm")
  then have "extends llm llm1" by (rule callImageGen_extendsD)
  then have m: "mode llm1 = mode llm" by (simp add: extends_def)
  show ?thesis
    by (simp add: p generateImage_def getMode_def m split: sum.splits prod.splits)
qed

lemma guardrail_cascade:
  "case runFastGuardrail i original enhanced llm of
     (Inr guard, llm1) \<Rightarrow> safeRunFastGuardrail i original enhanced llm = (guard, llm1)
   | (Inl e, llm1) \<Rightarrow>
       (mode llm = fast \<longrightarrow> safeRunFastGuardrail i original enhanced llm = (autoPass i, llm1))
       \<and> (mode llm = quality \<longrightarrow>
            snd (safeRunFastGuardrail i original enhanced llm) =
            snd (callJsonWithMode fast FAST_GUARDRAIL (guardrailContents original enhanced)
                   GUARDRAIL_SYSTEM GuardrailSchema asGuardrail llm1))"
proof -
  obtain r llm1 where p: "runFastGuardrail i original enhanced llm = (r, llm1)"
    by (cases "runFastGuardrail i original enhanced llm")
  then have "extends llm llm1" by (rule runFastGuardrail_extends)
  then have m: "mode llm1 = mode llm" by (simp add: extends_def)
  show ?thesis
    by (simp add: p safeRunFastGuardrail_def getMode_def m split: sum.splits prod.splits)
qed

lemma empathy_cascade:
  "case callText EMPATHY [TextPart (raw_text req)] ''Respond as a warm friend.'' llm of
     (Inr reply, llm1) \<Rightarrow> empathyStage req llm = (reply, llm1)
   | (Inl e, llm1) \<Rightarrow>
       (mode llm = fast \<longrightarrow> empathyStage req llm = (fallbackReply req, llm1))
       \<and> (mode llm = quality \<longrightarrow>
            snd (empathyStage req llm) =
            snd (callTextWithMode fast EMPATHY [TextPart (raw_text req)]
                   ''Respond as a warm friend.'' llm1))"
proof -
  obtain r llm1 where
    p: "callText EMPATHY [TextPart (raw_text req)] ''Respond as a warm friend.'' llm = (r, llm1)"
    by (cases "callText EMPATHY [TextPart (raw_text req)] ''Respond as a warm friend.'' llm")
  then have "extends llm llm1" by (rule callText_extendsD)
  then have m: "mode llm1 = mode llm" by (simp add: extends_def)
  show ?thesis
    by (simp add: p empathyStage_def getMode_def m split: sum.splits prod.splits)
qed

lemma copy_cascade:
  "case callJson COPY [TextPart (raw_text req)] ''Create high-impact post.'' CopySchema asCopy llm of
     (Inr c, llm1) \<Rightarrow> copyStage req llm = (c, llm1)
   | (Inl e, llm1) \<Rightarrow>
       (mode llm = fast \<longrightarrow> copyStage req llm = (fallbackCopy req, llm1))
       \<and> (mode llm = quality \<longrightarrow>
            snd (copyStage req llm) =
            snd (callJsonWithMode fast COPY [TextPart (raw_text req)]
                   ''Create high-impact post.'' CopySchema asCopy llm1))"
proof -
  obtain r llm1 where
    p: "callJson COPY [TextPart (raw_text req)] ''Create high-impact post.'' CopySchema asCopy llm
        = (r, llm1)"
    by (cases "callJson COPY [TextPart (raw_text req)] ''Create high-impact post.'' CopySchema
                 asCopy llm")
  then have "extends llm llm1" by (rule callJson_extendsD)
  then have m: "mode llm1 = mode llm" by (simp add: extends_def)
  show ?thesis
    by (simp add: p copyStage_def getMode_def m split: sum.splits prod.splits)
qed

text \<open>
  C5. For each of the six stages: when the primary call under the current mode returns a
  value, the stage ends in the router state that call left, so no cross-mode call was
  made; when it throws in \<open>fast\<close> mode, the stage ends in that same state with the
  deterministic default as its result; when it throws in \<open>quality\<close> mode, the stage
  ends in the state left by the one call forced to \<open>fast\<close> that follows it. The
  router state holds the log of the calls sent to the backend and the trace list.
\<close>

theorem cross_mode_fallback_only_in_quality:
  "(case runUnderstanding req llm of
     (Inr u, llm1) \<Rightarrow> safeRunUnderstanding req llm = (u, llm1)
   | (Inl e, llm1) \<Rightarrow>
       (mode llm = fast \<longrightarrow> safeRunUnderstanding req llm = (buildFallbackUnderstanding req, llm1))
       \<and> (mode llm = quality \<longrightarrow>
            snd (safeRunUnderstanding req llm) =
            snd (callJsonWithMode fast UNDERSTANDING [TextPart (raw_text req)]
                   UNDERSTANDING_SYSTEM UnderstandingSchema asUnderstanding llm1)))
   \<and> (images req \<noteq> [] \<longrightarrow>
       (case runVisualDirector req und llm of
         (Inr d, llm1) \<Rightarrow> safeRunVisualDirector req und llm = (d, llm1)
       | (Inl e, llm1) \<Rightarrow>
           (mode llm = fast \<longrightarrow>
              safeRunVisualDirector req und llm =
                (rewritePlans req und (buildFallbackDirector req und), llm1))
           \<and> (mode llm = quality \<longrightarrow>
                snd (safeRunVisualDirector req und llm) =
                snd (callJsonWithMode fast VISUAL_DIRECTOR (directorContents req) DIRECTOR_SYSTEM
                       DirectorSchema asDirector llm1))))
   \<and> (case callImageGen (nano_prompt_en_v2 plan) original refs llm of
        (Inr img, llm1) \<Rightarrow> generateImage plan original refs llm = (img, llm1)
      | (Inl e, llm1) \<Rightarrow>
          (mode llm = fast \<longrightarrow> generateImage plan original refs llm = (None, llm1))
          \<and> (mode llm = quality \<longrightarrow>
               snd (generateImage plan original refs llm) =
               snd (callImageGenWithMode fast (nano_prompt_en_v2 plan) original refs llm1)))
   \<and> (case runFastGuardrail i original enhanced llm of
        (Inr guard, llm1) \<Rightarrow> safeRunFastGuardrail i original enhanced llm = (guard, llm1)
      | (Inl e, llm1) \<Rightarrow>
          (mode llm = fast \<longrightarrow> safeRunFastGuardrail i original enhanced llm = (autoPass i, llm1))
          \<and> (mode llm = quality \<longrightarrow>
               snd (safeRunFastGuardrail i original enhanced llm) =
               snd (callJsonWithMode fast FAST_GUARDRAIL (guardrailContents original enhanced)
                      GUARDRAIL_SYSTEM GuardrailSchema asGuardrail llm1)))
   \<and> (case callText EMPATHY [TextPart (raw_text req)] ''Respond as a warm friend.'' llm of
        (Inr reply, llm1) \<Rightarrow> empathyStage req llm = (reply, llm1)
      | (Inl e, llm1) \<Rightarrow>
          (mode llm = fast \<longrightarrow> empathyStage req llm = (fallbackReply req, llm1))
          \<and> (mode llm = quality \<longrightarrow>
               snd (empathyStage req llm) =
               snd (callTextWithMode fast EMPATHY [TextPart (raw_text req)]
                      ''Respond as a warm friend.'' llm1)))
   \<and> (case callJson COPY [TextPart (raw_text req)] ''Create high-impact post.'' CopySchema
              asCopy llm of
        (Inr c, llm1) \<Rightarrow> copyStage req llm = (c, llm1)
      | (Inl e, llm1) \<Rightarrow>
          (mode llm = fast \<longrightarrow> copyStage req llm = (fallbackCopy req, llm1))
          \<and> (mode llm = quality \<longrightarrow>
               snd (copyStage req llm) =
               snd (callJsonWithMode fast COPY [TextPart (raw_text req)]
                      ''Create high-impact post.'' CopySchema asCopy llm1)))"
  by (intro conjI understanding_cascade director_cascade generation_cascade guardrail_cascade
        empathy_cascade copy_cascade)

text \<open>
  With the backend down: in \<open>fast\<close> mode the understanding stage ends after the two
  attempts of its budget with the fallback bundle; in \<open>quality\<close> mode three attempts
  are followed by the two of the call forced to \<open>fast\<close>.
\<close>

theorem cross_mode_fallback_only_in_quality_witness:
  "mode (newLLMRouter down req1 ''t1'') = fast
   \<and> isl (fst (runUnderstanding req1 (newLLMRouter down req1 ''t1'')))
   \<and> safeRunUnderstanding req1 (newLLMRouter down req1 ''t1'') =
       (buildFallbackUnderstanding req1, snd (runUnderstanding req1 (newLLMRouter down req1 ''t1'')))
   \<and> map tr_mode (traces (snd (safeRunUnderstanding req1 (newLLMRouter down req1 ''t1'')))) =
       [fast, fast]
   \<and> mode (newLLMRouter down req1q ''t1'') = quality
   \<and> map tr_mode (traces (snd (safeRunUnderstanding req1q (newLLMRouter down req1q ''t1'')))) =
       [quality, quality, quality, fast, fast]"
proof -
  let ?llm = "newLLMRouter down req1 ''t1''"
  have h1: "mode ?llm = fast" by code_simp
  have h2: "isl (fst (runUnderstanding req1 ?llm))" by code_simp
  have h3: "map tr_mode (traces (snd (safeRunUnderstanding req1 ?llm))) = [fast, fast]"
    by code_simp
  have h4: "mode (newLLMRouter down req1q ''t1'') = quality" by code_simp
  have h5: "map tr_mode (traces (snd (safeRunUnderstanding req1q (newLLMRouter down req1q ''t1''))))
            = [quality, quality, quality, fast, fast]"
    by code_simp
  have "safeRunUnderstanding req1 ?llm =
        (buildFallbackUnderstanding req1, snd (runUnderstanding req1 ?llm))"
    using cross_mode_fallback_only_in_quality[where req = req1 and llm = ?llm, THEN conjunct1]
      h1 h2
    by (cases "runUnderstanding req1 ?llm") (auto split: sum.splits)
  with h1 h2 h3 h4 h5 show ?thesis by blast
qed

text \<open>
  C9. \<open>recordTrace\<close> only appends, and the trace list of the router before any
  operation of the router or stage of the orchestrator is a prefix of the list after it:
  no record is changed or removed. The list returned in the response is the list of the
  router after the last stage, so the list after each earlier stage is a prefix of it.
\<close>

theorem trace_log_append_only:
  "traces (recordTrace agentId spec attempt durationMs ok err modeOverride llm) =
     traces llm @ [last (traces (recordTrace agentId spec attempt durationMs ok err modeOverride llm))]
   \<and> prefix (traces llm) (traces (snd (withRetries agentId spec act isValid modeOverride llm)))
   \<and> prefix (traces llm) (traces (snd (callJson agentId contents sys schema cast llm)))
   \<and> prefix (traces llm) (traces (snd (callText agentId contents sys llm)))
   \<and> prefix (traces llm) (traces (snd (callTextWithMode m agentId contents sys llm)))
   \<and> prefix (traces llm) (traces (snd (callJsonWithMode m agentId contents sys schema cast llm)))
   \<and> prefix (traces llm) (traces (snd (callImageGen prompt img refs llm)))
   \<and> prefix (traces llm) (traces (snd (callImageGenWithMode m prompt img refs llm)))
   \<and> prefix (traces llm) (traces (snd (safeRunUnderstanding req llm)))
   \<and> prefix (traces llm) (traces (snd (safeRunVisualDirector req und llm)))
   \<and> prefix (traces llm) (traces (snd (safeRunFastGuardrail i original enhanced llm)))
   \<and> prefix (traces llm) (traces (snd (snd (enhanceImage d orig refs i (enh, sc, llm)))))
   \<and> prefix (traces llm) (traces (snd (snd (enhanceAll d orig refs llm))))
   \<and> prefix (traces llm) (traces (snd (empathyStage req llm)))
   \<and> prefix (traces llm) (traces (snd (copyStage req llm)))
   \<and> prefix (traces (snd (afterUnderstanding api fresh req)))
        (traces (snd (afterDirection api fresh req)))
   \<and> prefix (traces (snd (afterDirection api fresh req)))
        (traces (snd (snd (afterEnhancement api fresh req))))
   \<and> prefix (traces (snd (snd (afterEnhancement api fresh req))))
        (traces (snd (afterEmpathy api fresh req)))
   \<and> prefix (traces (snd (afterEmpathy api fresh req))) (traces (snd (afterCopy api fresh req)))
   \<and> llmTrace (debugInfo (projr (runOrchestrator api fresh req))) =
        traces (snd (afterCopy api fresh req))"
proof -
  have ex: "\<And>a b. extends a b \<Longrightarrow> prefix (traces a) (traces b)"
    by (simp add: extends_def)
  have s1: "\<And>l. prefix (traces l) (traces (snd (safeRunUnderstanding req l)))"
    subgoal for l
      by (cases "safeRunUnderstanding req l") (auto dest: safeRunUnderstanding_extends ex)
    done
  have s2: "\<And>u l. prefix (traces l) (traces (snd (safeRunVisualDirector req u l)))"
    subgoal for u l
      by (cases "safeRunVisualDirector req u l") (auto dest: safeRunVisualDirector_extends ex)
    done
  have s3: "prefix (traces llm) (traces (snd (safeRunFastGuardrail i original enhanced llm)))"
    by (cases "safeRunFastGuardrail i original enhanced llm")
       (auto dest: safeRunFastGuardrail_extends ex)
  have s4: "prefix (traces llm) (traces (snd (snd (enhanceImage d orig refs i (enh, sc, llm)))))"
    by (cases "enhanceImage d orig refs i (enh, sc, llm)") (auto dest: enhanceImage_extends ex)
  have s5: "\<And>d orig refs l. prefix (traces l) (traces (snd (snd (enhanceAll d orig refs l))))"
    subgoal for d orig refs l
      by (cases "enhanceAll d orig refs l") (auto dest: enhanceAll_extends ex)
    done
  have s6: "\<And>l. prefix (traces l) (traces (snd (empathyStage req l)))"
    subgoal for l
      by (cases "empathyStage req l") (auto dest: empathyStage_extends ex)
    done
  have s7: "\<And>l. prefix (traces l) (traces (snd (copyStage req l)))"
    subgoal for l
      by (cases "copyStage req l") (auto dest: copyStage_extends ex)
    done
  have o1: "prefix (traces (snd (afterUnderstanding api fresh req)))
              (traces (snd (afterDirection api fresh req)))"
    unfolding afterDirection_def
    by (cases "afterUnderstanding api fresh req") (simp add: s2)
  have o2: "prefix (traces (snd (afterDirection api fresh req)))
              (traces (snd (snd (afterEnhancement api fresh req))))"
    unfolding afterEnhancement_def
    by (cases "afterDirection api fresh req") (simp add: s5)
  have o3: "prefix (traces (snd (snd (afterEnhancement api fresh req))))
              (traces (snd (afterEmpathy api fresh req)))"
    unfolding afterEmpathy_def
    by (cases "afterEnhancement api fresh req") (simp add: s6)
  have o4: "prefix (traces (snd (afterEmpathy api fresh req))) (traces (snd (afterCopy api fresh req)))"
    unfolding afterCopy_def
    by (cases "afterEmpathy api fresh req") (simp add: s7)
  have o5: "llmTrace (debugInfo (projr (runOrchestrator api fresh req))) =
        traces (snd (afterCopy api fresh req))"
    using runOrchestrator_stages[of api fresh req] by auto
  have r: "traces (recordTrace agentId spec attempt durationMs ok err modeOverride llm) =
     traces llm @ [last (traces (recordTrace agentId spec attempt durationMs ok err modeOverride llm))]"
    by (simp add: recordTrace_def)
  show ?thesis
    by (intro conjI r s1 s2 s3 s4 s5 s6 s7 o1 o2 o3 o4 o5
          ex[OF withRetries_extends] ex[OF callJson_extends] ex[OF callText_extends]
          ex[OF callTextWithMode_extends] ex[OF callJsonWithMode_extends]
          ex[OF callImageGen_extends] ex[OF callImageGenWithMode_extends])
qed

text \<open>
  In \<open>quality\<close> mode, on a backend where only the models of the \<open>fast\<close> tier answer,
  the failed attempts of the caption stage stay in the returned log in front of the
  successful \<open>fast\<close> attempt.
\<close>

theorem trace_log_append_only_witness:
  "prefix (traces (snd (afterEmpathy fastTierOnly ''t1'' req0q)))
     (llmTrace (debugInfo (projr (runOrchestrator fastTierOnly ''t1'' req0q))))
   \<and> map (\<lambda>t. (tr_agent t, tr_mode t, tr_ok t))
        (drop 8 (llmTrace (debugInfo (projr (runOrchestrator fastTierOnly ''t1'' req0q))))) =
       [(COPY, quality, False), (COPY, quality, False), (COPY, quality, False), (COPY, fast, True)]"
proof -
  have a: "prefix (traces (snd (afterEmpathy fastTierOnly ''t1'' req0q)))
     (llmTrace (debugInfo (projr (runOrchestrator fastTierOnly ''t1'' req0q))))"
    using trace_log_append_only[where api = fastTierOnly and fresh = "''t1''" and req = req0q,
        THEN conjunct2, THEN conjunct2, THEN conjunct2, THEN conjunct2, THEN conjunct2,
        THEN conjunct2, THEN conjunct2, THEN conjunct2, THEN conjunct2, THEN conjunct2,
        THEN conjunct2, THEN conjunct2, THEN conjunct2, THEN conjunct2, THEN conjunct2,
        THEN conjunct2, THEN conjunct2, THEN conjunct2]
    by simp
  have b: "map (\<lambda>t. (tr_agent t, tr_mode t, tr_ok t))
        (drop 8 (llmTrace (debugInfo (projr (runOrchestrator fastTierOnly ''t1'' req0q))))) =
       [(COPY, quality, False), (COPY, quality, False), (COPY, quality, False), (COPY, fast, True)]"
    by code_simp
  from a b show ?thesis by blast
qed

section \<open>Fields of the request that the orchestrator does not read\<close>

lemma newLLMRouter_ignores:
  "newLLMRouter api (req\<lparr>action := a\<rparr>) tid = newLLMRouter api req tid"
  "newLLMRouter api (req\<lparr>language := l\<rparr>) tid = newLLMRouter api req tid"
  by (simp_all add: newLLMRouter_def)

lemma safeRunUnderstanding_ignores:
  "safeRunUnderstanding (req\<lparr>action := a\<rparr>) llm = safeRunUnderstanding req llm"
  "safeRunUnderstanding (req\<lparr>language := l\<rparr>) llm = safeRunUnderstanding req llm"
  by (simp_all add: safeRunUnderstanding_def runUnderstanding_def buildFallbackUnderstanding_def
        cong: prod.case_cong sum.case_cong if_cong)

lemma safeRunVisualDirector_ignores:
  "safeRunVisualDirector (req\<lparr>action := a\<rparr>) und llm = safeRunVisualDirector req und llm"
  "safeRunVisualDirector (req\<lparr>language := l\<rparr>) und llm = safeRunVisualDirector req und llm"
  by (simp_all add: safeRunVisualDirector_def runVisualDirector_def directorContents_def
        rewritePlans_def buildFallbackDirector_def
        cong: prod.case_cong sum.case_cong if_cong)

lemma empathyStage_ignores:
  "empathyStage (req\<lparr>action := a\<rparr>) llm = empathyStage req llm"
  "empathyStage (req\<lparr>language := l\<rparr>) llm = empathyStage req llm"
  by (simp_all add: empathyStage_def fallbackReply_def
        cong: prod.case_cong sum.case_cong if_cong)

lemma copyStage_ignores:
  "copyStage (req\<lparr>action := a\<rparr>) llm = copyStage req llm"
  "copyStage (req\<lparr>language := l\<rparr>) llm = copyStage req llm"
  by (simp_all add: copyStage_def fallbackCopy_def
        cong: prod.case_cong sum.case_cong if_cong)

lemma runOrchestrator_ignores_action:
  "runOrchestrator api fresh (req\<lparr>action := a\<rparr>) = runOrchestrator api fresh req"
  by (simp add: runOrchestrator_def newLLMRouter_ignores safeRunUnderstanding_ignores
        safeRunVisualDirector_ignores empathyStage_ignores copyStage_ignores
        cong: prod.case_cong)

lemma runOrchestrator_ignores_language:
  "runOrchestrator api fresh (req\<lparr>language := l\<rparr>) = runOrchestrator api fresh req"
  by (simp add: runOrchestrator_def newLLMRouter_ignores safeRunUnderstanding_ignores
        safeRunVisualDirector_ignores empathyStage_ignores copyStage_ignores
        cong: prod.case_cong)

section \<open>The refine request without a trace id\<close>

text \<open>
  C1, as stated, fails: \<open>runOrchestrator\<close> does not read \<open>action\<close>. A refine request
  without a trace id is answered with a response under a newly minted id, after ten
  backend calls (all failing here) that left ten trace records.
\<close>

theorem refine_without_trace_id_not_rejected:
  "action reqRefine = Some refine \<and> traceId reqRefine = None
   \<and> \<not> isl (runOrchestrator down ''t1'' reqRefine)
   \<and> resp_traceId (projr (runOrchestrator down ''t1'' reqRefine)) = ''t1''
   \<and> length (llmTrace (debugInfo (projr (runOrchestrator down ''t1'' reqRefine)))) = 10
   \<and> length (sent (ai (snd (afterCopy down ''t1'' reqRefine)))) = 10"
  by code_simp

text \<open>
  C1, amended. The check for the missing trace id is made by the refine handler of the
  user interface: without a stored trace id it returns before calling the orchestrator,
  and the request it builds otherwise carries the stored id. The orchestrator itself
  treats a refine request without a trace id as a create request with the same content:
  it returns a response under the newly minted id.
\<close>

theorem refine_guard_is_in_the_caller:
  "handleRefine api fresh None request variantId rmode instr idx = None
   \<and> handleRefine api fresh (Some []) request variantId rmode instr idx = None
   \<and> (tid \<noteq> [] \<longrightarrow>
        (\<exists>r. handleRefine api fresh (Some tid) request variantId rmode instr idx =
                Some (runOrchestrator api fresh r)
             \<and> action r = Some refine \<and> traceId r = Some tid))
   \<and> (traceId req = None \<longrightarrow>
        runOrchestrator api fresh (req\<lparr>action := Some refine\<rparr>) =
          runOrchestrator api fresh (req\<lparr>action := Some create\<rparr>)
        \<and> \<not> isl (runOrchestrator api fresh (req\<lparr>action := Some refine\<rparr>))
        \<and> resp_traceId (projr (runOrchestrator api fresh (req\<lparr>action := Some refine\<rparr>))) = fresh)"
proof -
  have a: "handleRefine api fresh None request variantId rmode instr idx = None"
    "handleRefine api fresh (Some []) request variantId rmode instr idx = None"
    by (simp_all add: handleRefine_def truthy_def)
  have b: "tid \<noteq> [] \<longrightarrow>
        (\<exists>r. handleRefine api fresh (Some tid) request variantId rmode instr idx =
                Some (runOrchestrator api fresh r)
             \<and> action r = Some refine \<and> traceId r = Some tid)"
    by (auto simp: handleRefine_def truthy_def intro!: exI)
  have c: "traceId req = None \<longrightarrow>
        runOrchestrator api fresh (req\<lparr>action := Some refine\<rparr>) =
          runOrchestrator api fresh (req\<lparr>action := Some create\<rparr>)
        \<and> \<not> isl (runOrchestrator api fresh (req\<lparr>action := Some refine\<rparr>))
        \<and> resp_traceId (projr (runOrchestrator api fresh (req\<lparr>action := Some refine\<rparr>))) = fresh"
  proof
    assume n: "traceId req = None"
    obtain resp where r: "runOrchestrator api fresh req = Inr resp"
      "resp_traceId resp = traceIdOf fresh req"
      using runOrchestrator_stages[of api fresh req] by blast
    show "runOrchestrator api fresh (req\<lparr>action := Some refine\<rparr>) =
          runOrchestrator api fresh (req\<lparr>action := Some create\<rparr>)
        \<and> \<not> isl (runOrchestrator api fresh (req\<lparr>action := Some refine\<rparr>))
        \<and> resp_traceId (projr (runOrchestrator api fresh (req\<lparr>action := Some refine\<rparr>))) = fresh"
      using r n by (simp add: runOrchestrator_ignores_action traceIdOf_def)
  qed
  from a b c show ?thesis by blast
qed

text \<open>The scenario request, with and without a stored trace id in the interface.\<close>

theorem refine_guard_is_in_the_caller_witness:
  "traceId req1 = None \<and> ''t0'' \<noteq> []
   \<and> handleRefine down ''t1'' None req1 ''t0_v1'' lighter ''shorter'' None = None
   \<and> runOrchestrator down ''t1'' (req1\<lparr>action := Some refine\<rparr>) =
       runOrchestrator down ''t1'' (req1\<lparr>action := Some create\<rparr>)
   \<and> resp_traceId (projr (runOrchestrator down ''t1'' (req1\<lparr>action := Some refine\<rparr>))) = ''t1''
   \<and> (\<exists>r. handleRefine down ''t1'' (Some ''t0'') req1 ''t0_v1'' lighter ''shorter'' None =
              Some (runOrchestrator down ''t1'' r)
            \<and> action r = Some refine \<and> traceId r = Some ''t0'')"
proof -
  have h: "traceId req1 = None" by (simp add: req1_def)
  have t: "''t0'' \<noteq> []" by simp
  note inst = refine_guard_is_in_the_caller[where api = down and fresh = "''t1''" and req = req1
      and request = req1 and variantId = "''t0_v1''" and rmode = lighter
      and instr = "''shorter''" and idx = None and tid = "''t0''"]
  from inst h t show ?thesis by blast
qed

section \<open>The text stages\<close>

text \<open>
  C2: the code at a failing input. In \<open>quality\<close> mode, with a backend on which the
  calls of the \<open>quality\<close> tier fail and the \<open>fast\<close> retries of the caption and of the
  empathic reply succeed (their attempts are recorded with \<open>ok = true\<close>), the response
  carries the deterministic defaults and not the results of the \<open>fast\<close> retries.
\<close>

theorem fast_retry_result_discarded:
  "map (\<lambda>t. (tr_agent t, tr_mode t, tr_ok t))
      (drop 5 (llmTrace (debugInfo (projr (runOrchestrator fastTierOnly ''t1'' req0q))))) =
     [(EMPATHY, quality, False), (EMPATHY, quality, False), (EMPATHY, fast, True),
      (COPY, quality, False), (COPY, quality, False), (COPY, quality, False), (COPY, fast, True)]
   \<and> map copy (variants (projr (runOrchestrator fastTierOnly ''t1'' req0q))) =
       [\<lparr>title = ''Draft'', main_text = raw_text req0q, hash_tags = []\<rparr>]
   \<and> \<lparr>title = ''Draft'', main_text = raw_text req0q, hash_tags = []\<rparr> \<noteq> fastCopy
   \<and> empathic_reply (projr (runOrchestrator fastTierOnly ''t1'' req0q)) =
       EMPATHY_PREFIX @ raw_text req0q @ EMPATHY_SUFFIX
   \<and> EMPATHY_PREFIX @ raw_text req0q @ EMPATHY_SUFFIX \<noteq> ''Hang in there.''"
  by code_simp

text \<open>
  C8, as stated, fails: the fallback reply is not chosen by the language of the request.
  With the backend down, a request in English with a text gets the Chinese template, the
  same reply as the request with the language set to Chinese, and a request in Chinese
  without a text gets the English sentence.
\<close>

theorem empathic_fallback_not_switched_on_language:
  "language req0 = Some en
   \<and> empathic_reply (projr (runOrchestrator down ''t1'' req0)) =
       EMPATHY_PREFIX @ raw_text req0 @ EMPATHY_SUFFIX
   \<and> empathic_reply (projr (runOrchestrator down ''t1'' (req0\<lparr>language := Some zh\<rparr>))) =
       empathic_reply (projr (runOrchestrator down ''t1'' req0))
   \<and> empathic_reply
        (projr (runOrchestrator down ''t1'' (req0\<lparr>raw_text := [], language := Some zh\<rparr>))) =
       ''Thanks for sharing. I am here with you.''"
  by code_simp

text \<open>
  C8, amended. When the empathic reply fails in both tiers (the call under the current
  mode throws and, in \<open>quality\<close> mode, the call forced to \<open>fast\<close> throws too), the
  returned reply is a fixed template around the raw text when the text is not empty and
  a fixed English sentence otherwise; the response does not depend on the language field.
\<close>

theorem empathic_fallback_template:
  assumes "llm = snd (snd (afterEnhancement api fresh req))"
    and "isl (fst (callText EMPATHY [TextPart (raw_text req)] ''Respond as a warm friend.'' llm))"
    and "mode llm = quality \<Longrightarrow>
         isl (fst (callTextWithMode fast EMPATHY [TextPart (raw_text req)]
                     ''Respond as a warm friend.''
                     (snd (callText EMPATHY [TextPart (raw_text req)]
                             ''Respond as a warm friend.'' llm))))"
  shows "empathic_reply (projr (runOrchestrator api fresh req)) =
           (if raw_text req \<noteq> [] then EMPATHY_PREFIX @ raw_text req @ EMPATHY_SUFFIX
            else ''Thanks for sharing. I am here with you.'')
         \<and> runOrchestrator api fresh (req\<lparr>language := l\<rparr>) = runOrchestrator api fresh req"
proof -
  obtain r llm1 where
    p: "callText EMPATHY [TextPart (raw_text req)] ''Respond as a warm friend.'' llm = (r, llm1)"
    by (cases "callText EMPATHY [TextPart (raw_text req)] ''Respond as a warm friend.'' llm")
  with assms(2) obtain e where e: "r = Inl e" by (cases r) auto
  have "fst (empathyStage req llm) = fallbackReply req"
    by (simp add: empathyStage_def p e split: prod.splits sum.splits)
  moreover have "empathic_reply (projr (runOrchestrator api fresh req)) = fst (empathyStage req llm)"
    using runOrchestrator_stages[of api fresh req] assms(1)
    by (auto simp: afterEmpathy_def split: prod.splits)
  ultimately show ?thesis
    by (simp add: fallbackReply_def runOrchestrator_ignores_language)
qed

text \<open>In \<open>quality\<close> mode with the backend down, both tiers of the reply fail.\<close>

theorem empathic_fallback_template_witness:
  "mode (snd (snd (afterEnhancement down ''t1'' req0q))) = quality
   \<and> isl (fst (callText EMPATHY [TextPart (raw_text req0q)] ''Respond as a warm friend.''
                 (snd (snd (afterEnhancement down ''t1'' req0q)))))
   \<and> isl (fst (callTextWithMode fast EMPATHY [TextPart (raw_text req0q)]
                     ''Respond as a warm friend.''
                     (snd (callText EMPATHY [TextPart (raw_text req0q)]
                             ''Respond as a warm friend.''
                             (snd (snd (afterEnhancement down ''t1'' req0q)))))))
   \<and> raw_text req0q \<noteq> []
   \<and> empathic_reply (projr (runOrchestrator down ''t1'' req0q)) =
       EMPATHY_PREFIX @ raw_text req0q @ EMPATHY_SUFFIX
   \<and> runOrchestrator down ''t1'' (req0q\<lparr>language := Some zh\<rparr>) =
       runOrchestrator down ''t1'' req0q"
proof -
  let ?llm = "snd (snd (afterEnhancement down ''t1'' req0q))"
  have h1: "mode ?llm = quality" by code_simp
  have h2: "isl (fst (callText EMPATHY [TextPart (raw_text req0q)] ''Respond as a warm friend.''
                 ?llm))"
    by code_simp
  have h3: "isl (fst (callTextWithMode fast EMPATHY [TextPart (raw_text req0q)]
                     ''Respond as a warm friend.''
                     (snd (callText EMPATHY [TextPart (raw_text req0q)]
                             ''Respond as a warm friend.'' ?llm))))"
    by code_simp
  have h4: "raw_text req0q \<noteq> []" by code_simp
  from empathic_fallback_template[where llm = ?llm and api = down and fresh = "''t1''"
      and req = req0q and l = "Some zh", OF refl h2 h3] h1 h2 h3 h4
  show ?thesis by simp
qed

section \<open>The iterations of the enhancement loop in the response\<close>

lemma withRetries_appended:
  assumes "withRetries agentId spec act isValid mo llm = (r, llm')"
  shows "\<exists>ts. traces llm' = traces llm @ ts \<and> length ts \<le> attemptsOf spec
           \<and> (\<forall>t\<in>set ts. tr_agent t = agentId
                  \<and> tr_mode t = (case mo of Some m \<Rightarrow> m | None \<Rightarrow> mode llm))"
proof -
  from retryLoop_spec[OF assms[unfolded withRetries_def] ] obtain k where
    k: "k \<le> attemptsOf spec"
    "traces llm' = traces llm @
       map (\<lambda>j. attemptTrace agentId spec isValid mo (mode llm) (0 + j)
                  (attemptResult act j (ai llm))) [0..<k]"
    by blast
  let ?ts = "map (\<lambda>j. attemptTrace agentId spec isValid mo (mode llm) (0 + j)
                  (attemptResult act j (ai llm))) [0..<k]"
  have "traces llm' = traces llm @ ?ts \<and> length ?ts \<le> attemptsOf spec
           \<and> (\<forall>t\<in>set ?ts. tr_agent t = agentId
                  \<and> tr_mode t = (case mo of Some m \<Rightarrow> m | None \<Rightarrow> mode llm))"
    using k by (auto simp: attemptTrace_def)
  then show ?thesis by blast
qed

lemma callImageGenWithMode_appended:
  assumes "callImageGenWithMode m prompt img refs llm = (r, llm')"
  shows "\<exists>ts. traces llm' = traces llm @ ts
           \<and> length ts \<le> (case matrix llm m IMAGE_GEN of None \<Rightarrow> 0 | Some spec \<Rightarrow> attemptsOf spec)
           \<and> (\<forall>t\<in>set ts. tr_agent t = IMAGE_GEN \<and> tr_mode t = m)"
proof (cases "matrix llm m IMAGE_GEN")
  case None
  with assms show ?thesis
    by (simp add: callImageGenWithMode_def getSpecForMode_def)
next
  case (Some spec)
  with assms have "withRetries IMAGE_GEN spec (imageAction spec prompt img refs) truthy (Some m) llm
                   = (r, llm')"
    by (simp add: callImageGenWithMode_def getSpecForMode_def callImageGenWithSpec_def)
  from withRetries_appended[OF this] Some show ?thesis by simp
qed

lemma enhanceLoop_above:
  "n \<le> j \<Longrightarrow> fst (enhanceLoop d orig refs a n st) ! j = fst st ! j"
proof (induction d orig refs a n st rule: enhanceLoop.induct)
  case (1 d orig refs a n st)
  show ?case
  proof (cases "a < n")
    case True
    with "1.prems" have ne: "j \<noteq> a" by simp
    have "fst (enhanceLoop d orig refs (Suc a) n (enhanceImage d orig refs a st)) ! j =
          fst (enhanceImage d orig refs a st) ! j"
      by (rule "1.IH"[OF True "1.prems"])
    also have "\<dots> = fst st ! j"
      by (rule enhanceImage_other[OF ne])
    finally show ?thesis
      by (simp only: enhanceLoop_unfold[OF True])
  next
    case False
    then show ?thesis using enhanceLoop_done[of a n d orig refs st] by simp
  qed
qed

lemma enhanceImage_no_plan:
  "find (\<lambda>p. image_index p = int i) (d_images d) = None \<Longrightarrow> enhanceImage d orig refs i st = st"
  by (simp add: enhanceImage_def split: prod.splits)

lemma enhanceImage_generation_failed:
  assumes "find (\<lambda>p. image_index p = int i) (d_images d) = Some plan"
    and "generationFails plan (orig ! i) refs llm"
  shows "fst (enhanceImage d orig refs i (enh, sc, llm)) = enh[i := orig ! i]"
proof -
  obtain r llm1 where p: "callImageGen (nano_prompt_en_v2 plan) (orig ! i) refs llm = (r, llm1)"
    by (cases "callImageGen (nano_prompt_en_v2 plan) (orig ! i) refs llm")
  with assms(2) obtain e where e: "r = Inl e"
    by (cases r) (auto simp: generationFails_def)
  have m: "mode llm1 = mode llm"
    using callImageGen_extendsD[OF p] by (simp add: extends_def)
  obtain g l1 where gi: "generateImage plan (orig ! i) refs llm = (g, l1)"
    by (cases "generateImage plan (orig ! i) refs llm")
  have "\<not> truthy g"
    using assms(2) gi
    by (auto simp: generationFails_def generateImage_def p e m getMode_def truthy_def
             split: prod.splits sum.splits Mode.splits if_splits)
  then show ?thesis
    by (simp add: enhanceImage_def assms(1) gi)
qed

lemma response_images:
  "map enhanced_images_base64 (variants (projr (runOrchestrator api fresh req))) =
     [fst (enhanceLoop (visual_director_output (projr (runOrchestrator api fresh req)))
             (images req) (referencesOf req) 0 (length (images req))
             (replicate (length (images req)) [], [], snd (afterDirection api fresh req)))]"
  using runOrchestrator_stages[of api fresh req]
  by (auto simp: afterEnhancement_def enhanceAll_def split: prod.splits)

lemma response_entry:
  assumes "i < length (images req)"
  shows "map (\<lambda>v. enhanced_images_base64 v ! i) (variants (projr (runOrchestrator api fresh req))) =
     [fst (enhanceImage (visual_director_output (projr (runOrchestrator api fresh req)))
             (images req) (referencesOf req) i (enhanceStateAt api fresh req i)) ! i]"
proof -
  have d: "visual_director_output (projr (runOrchestrator api fresh req)) =
           fst (afterDirection api fresh req)"
    using runOrchestrator_stages[of api fresh req] by auto
  have "map (\<lambda>v. enhanced_images_base64 v ! i) (variants (projr (runOrchestrator api fresh req))) =
        map (\<lambda>e. e ! i) (map enhanced_images_base64 (variants (projr (runOrchestrator api fresh req))))"
    by simp
  also have "\<dots> = [fst (enhanceLoop (fst (afterDirection api fresh req))
             (images req) (referencesOf req) 0 (length (images req))
             (replicate (length (images req)) [], [], snd (afterDirection api fresh req))) ! i]"
    unfolding response_images d by simp
  also have "\<dots> = [fst (enhanceImage (fst (afterDirection api fresh req))
             (images req) (referencesOf req) i (enhanceStateAt api fresh req i)) ! i]"
    by (simp add: enhanceLoop_entry[OF assms] enhanceStateAt_def split: prod.splits)
  finally show ?thesis by (simp add: d)
qed

lemma enhanceStateAt_untouched:
  assumes "i < length (images req)"
  shows "fst (enhanceStateAt api fresh req i) ! i = []"
    and "length (fst (enhanceStateAt api fresh req i)) = length (images req)"
  using assms
  by (simp_all add: enhanceStateAt_def enhanceLoop_above length_enhanceLoop split: prod.splits)

section \<open>The guardrail\<close>

text \<open>
  C7. \<open>runFastGuardrail\<close> calls the fast guardrail when the table has it for the
  current mode, else the quality evaluator when the table has that one; with neither it
  makes no call and returns a pass with score 0 and verdict \<open>OK\<close>. From the quality
  evaluator it keeps the verdicts \<open>OK\<close>, \<open>COLOR_CAST\<close> and \<open>ARTIFACTS\<close> and turns
  every other one, \<open>NEEDS_RECOMPOSE\<close> and \<open>NEEDS_CLEANUP\<close> among them, into
  \<open>TOO_WEAK_CHANGE\<close>. In the shipped table each mode has exactly one of the two.
\<close>

theorem guardrail_evaluator_selection:
  "(matrix llm (mode llm) FAST_GUARDRAIL \<noteq> None \<longrightarrow>
      runFastGuardrail i original enhanced llm =
        callJson FAST_GUARDRAIL (guardrailContents original enhanced) GUARDRAIL_SYSTEM
          GuardrailSchema asGuardrail llm)
   \<and> (matrix llm (mode llm) FAST_GUARDRAIL = None \<and> matrix llm (mode llm) IMAGE_QA \<noteq> None \<longrightarrow>
      (case callJson IMAGE_QA (guardrailContents original enhanced) GUARDRAIL_SYSTEM QASchema
              asImageQA llm of
         (Inl err, llm1) \<Rightarrow> runFastGuardrail i original enhanced llm = (Inl err, llm1)
       | (Inr qa, llm1) \<Rightarrow>
           (\<exists>g. runFastGuardrail i original enhanced llm = (Inr g, llm1)
              \<and> pass g = qa_pass qa \<and> score g = qa_score qa
              \<and> verdict g =
                  (if qa_verdict qa = ''OK'' \<or> qa_verdict qa = ''COLOR_CAST''
                      \<or> qa_verdict qa = ''ARTIFACTS''
                   then qa_verdict qa else ''TOO_WEAK_CHANGE'')
              \<and> (qa_verdict qa = ''NEEDS_RECOMPOSE'' \<or> qa_verdict qa = ''NEEDS_CLEANUP'' \<longrightarrow>
                   verdict g = ''TOO_WEAK_CHANGE''))))
   \<and> (matrix llm (mode llm) FAST_GUARDRAIL = None \<and> matrix llm (mode llm) IMAGE_QA = None \<longrightarrow>
      (\<exists>g. runFastGuardrail i original enhanced llm = (Inr g, llm)
         \<and> pass g \<and> score g = Some 0 \<and> verdict g = ''OK''))
   \<and> MODEL_MATRIX fast FAST_GUARDRAIL \<noteq> None \<and> MODEL_MATRIX fast IMAGE_QA = None
   \<and> MODEL_MATRIX quality FAST_GUARDRAIL = None \<and> MODEL_MATRIX quality IMAGE_QA \<noteq> None"
proof -
  have a: "matrix llm (mode llm) FAST_GUARDRAIL \<noteq> None \<longrightarrow>
      runFastGuardrail i original enhanced llm =
        callJson FAST_GUARDRAIL (guardrailContents original enhanced) GUARDRAIL_SYSTEM
          GuardrailSchema asGuardrail llm"
    by (simp add: runFastGuardrail_def getSpecForMode_def getMode_def)
  have b: "matrix llm (mode llm) FAST_GUARDRAIL = None \<and> matrix llm (mode llm) IMAGE_QA \<noteq> None \<longrightarrow>
      (case callJson IMAGE_QA (guardrailContents original enhanced) GUARDRAIL_SYSTEM QASchema
              asImageQA llm of
         (Inl err, llm1) \<Rightarrow> runFastGuardrail i original enhanced llm = (Inl err, llm1)
       | (Inr qa, llm1) \<Rightarrow>
           (\<exists>g. runFastGuardrail i original enhanced llm = (Inr g, llm1)
              \<and> pass g = qa_pass qa \<and> score g = qa_score qa
              \<and> verdict g =
                  (if qa_verdict qa = ''OK'' \<or> qa_verdict qa = ''COLOR_CAST''
                      \<or> qa_verdict qa = ''ARTIFACTS''
                   then qa_verdict qa else ''TOO_WEAK_CHANGE'')
              \<and> (qa_verdict qa = ''NEEDS_RECOMPOSE'' \<or> qa_verdict qa = ''NEEDS_CLEANUP'' \<longrightarrow>
                   verdict g = ''TOO_WEAK_CHANGE'')))"
    by (auto simp: runFastGuardrail_def getSpecForMode_def getMode_def mapVerdict_def
             split: prod.splits sum.splits)
  have c: "matrix llm (mode llm) FAST_GUARDRAIL = None \<and> matrix llm (mode llm) IMAGE_QA = None \<longrightarrow>
      (\<exists>g. runFastGuardrail i original enhanced llm = (Inr g, llm)
         \<and> pass g \<and> score g = Some 0 \<and> verdict g = ''OK'')"
    by (simp add: runFastGuardrail_def getSpecForMode_def getMode_def autoPass_def)
  have d: "MODEL_MATRIX fast FAST_GUARDRAIL \<noteq> None \<and> MODEL_MATRIX fast IMAGE_QA = None
   \<and> MODEL_MATRIX quality FAST_GUARDRAIL = None \<and> MODEL_MATRIX quality IMAGE_QA \<noteq> None"
    by simp
  from a b c d show ?thesis by blast
qed

text \<open>
  With a table that has no evaluator the guardrail passes without a call; in
  \<open>quality\<close> mode, on the shipped table, the verdict \<open>NEEDS_CLEANUP\<close> of the quality
  evaluator comes back as \<open>TOO_WEAK_CHANGE\<close>.
\<close>

theorem guardrail_evaluator_selection_witness:
  "matrix noEvaluator (mode noEvaluator) FAST_GUARDRAIL = None
   \<and> matrix noEvaluator (mode noEvaluator) IMAGE_QA = None
   \<and> (\<exists>g. runFastGuardrail 0 ''o'' ''e'' noEvaluator = (Inr g, noEvaluator)
         \<and> pass g \<and> score g = Some 0 \<and> verdict g = ''OK'')
   \<and> matrix (newLLMRouter qaBackend req1q ''t1'') (mode (newLLMRouter qaBackend req1q ''t1''))
         FAST_GUARDRAIL = None
   \<and> qa_verdict cleanupVerdict = ''NEEDS_CLEANUP''
   \<and> map verdict [projr (fst (runFastGuardrail 0 ''o'' ''e'' (newLLMRouter qaBackend req1q ''t1'')))]
       = [''TOO_WEAK_CHANGE'']
   \<and> map tr_agent (traces (snd (runFastGuardrail 0 ''o'' ''e'' (newLLMRouter qaBackend req1q ''t1''))))
       = [IMAGE_QA]"
proof -
  have h1: "matrix noEvaluator (mode noEvaluator) FAST_GUARDRAIL = None"
    "matrix noEvaluator (mode noEvaluator) IMAGE_QA = None"
    by (simp_all add: noEvaluator_def)
  have h2: "matrix (newLLMRouter qaBackend req1q ''t1'') (mode (newLLMRouter qaBackend req1q ''t1''))
         FAST_GUARDRAIL = None"
    by (simp add: newLLMRouter_def req1q_def req1_def)
  have h3: "qa_verdict cleanupVerdict = ''NEEDS_CLEANUP''"
    by (simp add: cleanupVerdict_def)
  have h4: "map verdict [projr (fst (runFastGuardrail 0 ''o'' ''e'' (newLLMRouter qaBackend req1q ''t1'')))]
       = [''TOO_WEAK_CHANGE'']"
    by code_simp
  have h5: "map tr_agent (traces (snd (runFastGuardrail 0 ''o'' ''e'' (newLLMRouter qaBackend req1q ''t1''))))
       = [IMAGE_QA]"
    by code_simp
  from guardrail_evaluator_selection[where llm = noEvaluator and i = 0 and original = "''o''"
      and enhanced = "''e''", THEN conjunct2, THEN conjunct2, THEN conjunct1] h1
  have "\<exists>g. runFastGuardrail 0 ''o'' ''e'' noEvaluator = (Inr g, noEvaluator)
         \<and> pass g \<and> score g = Some 0 \<and> verdict g = ''OK''"
    by blast
  with h1 h2 h3 h4 h5 show ?thesis by blast
qed

section \<open>The rescue\<close>

lemma imageAction_sent:
  "snd (imageAction spec prompt img refs g) = g\<lparr>sent := sent g @ [imageCall spec prompt img refs]\<rparr>"
  by (simp add: imageAction_def generateContent_def split: prod.splits Outcome.splits
        option.splits list.splits)

lemma afterAttempts_imageAction:
  "afterAttempts (imageAction spec prompt img refs) k g =
     g\<lparr>sent := sent g @ replicate k (imageCall spec prompt img refs)\<rparr>"
proof (induction k arbitrary: g)
  case 0
  show ?case by simp
next
  case (Suc k)
  show ?case
    by (simp add: Suc.IH imageAction_sent replicate_app_Cons_same)
qed

lemma withRetries_runs:
  assumes "withRetries agentId spec act isValid mo llm = (r, llm')"
  shows "\<exists>k. 0 < k \<and> k \<le> attemptsOf spec
           \<and> ai llm' = afterAttempts act k (ai llm)
           \<and> traces llm' = traces llm @
                map (\<lambda>j. attemptTrace agentId spec isValid mo (mode llm) j
                           (attemptResult act j (ai llm))) [0..<k]
           \<and> (\<forall>j. Suc j < k \<longrightarrow> \<not> accepted isValid (snd (attemptResult act j (ai llm))))
           \<and> accepted isValid (snd (attemptResult act (k - 1) (ai llm))) = (\<not> isl r)
           \<and> (isl r \<longrightarrow> k = attemptsOf spec)"
proof -
  have pos: "0 < attemptsOf spec" by (simp add: attemptsOf_def)
  from retryLoop_spec[OF assms[unfolded withRetries_def] ] obtain k where k:
    "k \<le> attemptsOf spec" "0 < k"
    "\<forall>j. Suc j < k \<longrightarrow> \<not> accepted isValid (snd (attemptResult act j (ai llm)))"
    "ai llm' = afterAttempts act k (ai llm)"
    "traces llm' = traces llm @
       map (\<lambda>j. attemptTrace agentId spec isValid mo (mode llm) (0 + j)
                  (attemptResult act j (ai llm))) [0..<k]"
    "case r of
       Inr v \<Rightarrow> 0 < k \<and> snd (attemptResult act (k - 1) (ai llm)) = Inr v \<and> isValid v
     | Inl e \<Rightarrow> k = attemptsOf spec \<and>
         (if attemptsOf spec = 0 then e = Null
          else \<not> accepted isValid (snd (attemptResult act (attemptsOf spec - 1) (ai llm)))
               \<and> e = caught agentId (snd (attemptResult act (attemptsOf spec - 1) (ai llm))))"
    using pos by blast
  have l: "accepted isValid (snd (attemptResult act (k - 1) (ai llm))) = (\<not> isl r)"
    "isl r \<longrightarrow> k = attemptsOf spec"
    using k(6) pos by (auto simp: accepted_def split: sum.splits)
  show ?thesis
    apply (rule exI[of _ k])
    using k(1-5) l by simp
qed

lemma map_accepted_runs:
  assumes "0 < k"
    and "\<forall>j. Suc j < k \<longrightarrow> \<not> P j"
  shows "map P [0..<k] = replicate (k - 1) False @ [P (k - 1)]"
proof -
  obtain m where m: "k = Suc m" using assms(1) by (cases k) auto
  have "map P [0..<m] = map (\<lambda>_. False) [0..<m]"
    using assms(2) m by (intro map_cong) auto
  then show ?thesis
    by (simp add: m map_replicate_const)
qed

lemma rescue_call_detail:
  assumes "callImageGenWithMode m prompt img refs llm = (r, llm')"
    and "matrix llm m IMAGE_GEN = Some spec"
  shows "\<exists>k ts. 0 < k \<and> k \<le> attemptsOf spec
           \<and> traces llm' = traces llm @ ts
           \<and> map tr_agent ts = replicate k IMAGE_GEN
           \<and> map tr_mode ts = replicate k m
           \<and> map tr_retriesUsed ts = [0..<k]
           \<and> map tr_ok ts = replicate (k - 1) False @ [\<not> isl r]
           \<and> (isl r \<longrightarrow> k = attemptsOf spec)
           \<and> sent (ai llm') = sent (ai llm) @ replicate k (imageCall spec prompt img refs)"
proof -
  let ?act = "imageAction spec prompt img refs"
  have w: "withRetries IMAGE_GEN spec ?act truthy (Some m) llm = (r, llm')"
    using assms by (simp add: callImageGenWithMode_def getSpecForMode_def callImageGenWithSpec_def)
  from withRetries_runs[OF w] obtain k where k: "0 < k" "k \<le> attemptsOf spec"
    "ai llm' = afterAttempts ?act k (ai llm)"
    "traces llm' = traces llm @
       map (\<lambda>j. attemptTrace IMAGE_GEN spec truthy (Some m) (mode llm) j
                  (attemptResult ?act j (ai llm))) [0..<k]"
    "\<forall>j. Suc j < k \<longrightarrow> \<not> accepted truthy (snd (attemptResult ?act j (ai llm)))"
    "accepted truthy (snd (attemptResult ?act (k - 1) (ai llm))) = (\<not> isl r)"
    "isl r \<longrightarrow> k = attemptsOf spec"
    by blast
  let ?ts = "map (\<lambda>j. attemptTrace IMAGE_GEN spec truthy (Some m) (mode llm) j
                  (attemptResult ?act j (ai llm))) [0..<k]"
  have a: "map tr_agent ?ts = replicate k IMAGE_GEN" "map tr_mode ?ts = replicate k m"
    by (simp_all add: attemptTrace_def o_def map_replicate_const)
  have b: "map tr_retriesUsed ?ts = [0..<k]"
    by (simp add: attemptTrace_def o_def)
  have "map tr_ok ?ts = map (\<lambda>j. accepted truthy (snd (attemptResult ?act j (ai llm)))) [0..<k]"
    by (simp add: attemptTrace_def o_def)
  also have "\<dots> = replicate (k - 1) False @ [\<not> isl r]"
    using map_accepted_runs[OF k(1),
        of "\<lambda>j. accepted truthy (snd (attemptResult ?act j (ai llm)))"] k(5) k(6)
    by simp
  finally have c: "map tr_ok ?ts = replicate (k - 1) False @ [\<not> isl r]" .
  have d: "sent (ai llm') = sent (ai llm) @ replicate k (imageCall spec prompt img refs)"
    by (simp add: k(3) afterAttempts_imageAction)
  show ?thesis
    apply (rule exI[of _ k])
    apply (rule exI[of _ ?ts])
    using k(1,2,4,7) a b c d by simp
qed

text \<open>
  C3, as stated, fails: the rescue is one call of the retrying image executor, not one
  attempt. In the iteration that \<open>runOrchestrator\<close> runs for the image of the scenario
  request, with a guardrail that rejects the first image and a rescue model that fails
  twice before it answers, the rescue leaves three \<open>IMAGE_GEN\<close> records in
  \<open>quality\<close> mode (attempts 0, 1 and 2) after the record of the guardrail, and five
  calls are sent to the backend in all.
\<close>

theorem rescue_makes_three_attempts:
  "map tr_agent (traces (snd (snd (enhanceImage \<lparr>d_images = [relight]\<rparr> (images req1) [] 0
           ([ [] ], [], newLLMRouter rescueFlaky req1 ''t1''))))) =
     [IMAGE_GEN, FAST_GUARDRAIL, IMAGE_GEN, IMAGE_GEN, IMAGE_GEN]
   \<and> map tr_mode (traces (snd (snd (enhanceImage \<lparr>d_images = [relight]\<rparr> (images req1) [] 0
           ([ [] ], [], newLLMRouter rescueFlaky req1 ''t1''))))) =
     [fast, fast, quality, quality, quality]
   \<and> map tr_ok (traces (snd (snd (enhanceImage \<lparr>d_images = [relight]\<rparr> (images req1) [] 0
           ([ [] ], [], newLLMRouter rescueFlaky req1 ''t1''))))) =
     [True, True, False, False, True]
   \<and> map tr_retriesUsed (traces (snd (snd (enhanceImage \<lparr>d_images = [relight]\<rparr> (images req1) [] 0
           ([ [] ], [], newLLMRouter rescueFlaky req1 ''t1''))))) =
     [0, 0, 0, 1, 2]
   \<and> length (sent (ai (snd (snd (enhanceImage \<lparr>d_images = [relight]\<rparr> (images req1) [] 0
           ([ [] ], [], newLLMRouter rescueFlaky req1 ''t1'')))))) = 5
   \<and> fst (enhanceImage \<lparr>d_images = [relight]\<rparr> (images req1) [] 0
           ([ [] ], [], newLLMRouter rescueFlaky req1 ''t1'')) = [''data:image/png;base64,RESCUE'']"
  by code_simp

text \<open>
  C3, amended. For an image whose first generation produced an image and whose guardrail
  verdict did not pass, the iteration makes exactly one rescue call and nothing after
  it: \<open>callImageGenWithMode\<close> in \<open>quality\<close> mode, whatever the current mode, with the
  prompt of the plan followed by a line break and the fixed text that starts with
  \<open>[STRICT]\<close>, the original image and the reference images. That one call runs
  through the retrying executor: with an \<open>IMAGE_GEN\<close> spec for \<open>quality\<close> it makes
  \<open>k\<close> attempts, with \<open>k\<close> from 1 to the retry budget of that spec (3 in the shipped
  table), each sending the same rescue prompt and each leaving one \<open>IMAGE_GEN\<close>
  record in \<open>quality\<close> mode, all failed but possibly the last. An image the call
  returns replaces the first one without a guardrail check; otherwise the first image
  stays.
\<close>

theorem rescue_single_call:
  assumes "find (\<lambda>p. image_index p = int i) (d_images directorOut) = Some plan"
    and "generateImage plan (orig ! i) refs llm = (Some img, llm1)"
    and "img \<noteq> []"
    and "safeRunFastGuardrail i (orig ! i) img llm1 = (guard, llm2)"
    and "\<not> pass guard"
    and "rescuePrompt = nano_prompt_en_v2 plan @ [CHR 0x0A] @ ''[STRICT]: ELIMINATE ALL FLOATING DOTS. Deepen shadows to black. Make the screen light the ONLY light.''"
  shows "rescueMode llm2 = quality
     \<and> length rescuePrompt = length (nano_prompt_en_v2 plan) + 102
     \<and> (case callImageGenWithMode quality rescuePrompt (orig ! i) refs llm2 of
          (r, llm3) \<Rightarrow>
            enhanceImage directorOut orig refs i (enh, sc, llm) =
              (enh[i := (case r of
                           Inr (Some rescueImg) \<Rightarrow> if rescueImg \<noteq> [] then rescueImg else img
                         | Inr None \<Rightarrow> img
                         | Inl err \<Rightarrow> img)],
               sc @ [\<lparr>s_index = i, s_score = score guard, s_verdict = verdict guard\<rparr>],
               llm3)
            \<and> (case matrix llm2 quality IMAGE_GEN of
                  None \<Rightarrow> r = Inr None \<and> llm3 = llm2
                | Some spec \<Rightarrow>
                    (\<exists>k ts. 0 < k \<and> k \<le> attemptsOf spec
                       \<and> traces llm3 = traces llm2 @ ts
                       \<and> map tr_agent ts = replicate k IMAGE_GEN
                       \<and> map tr_mode ts = replicate k quality
                       \<and> map tr_retriesUsed ts = [0..<k]
                       \<and> map tr_ok ts = replicate (k - 1) False @ [\<not> isl r]
                       \<and> (isl r \<longrightarrow> k = attemptsOf spec)
                       \<and> sent (ai llm3) = sent (ai llm2) @
                            replicate k (imageCall spec rescuePrompt (orig ! i) refs)
                       \<and> call_contents (imageCall spec rescuePrompt (orig ! i) refs) =
                            InlineData (orig ! i) # map InlineData refs @ [TextPart rescuePrompt])))
     \<and> map_option attemptsOf (MODEL_MATRIX quality IMAGE_GEN) = Some 3"
proof -
  have q: "rescueMode llm2 = quality"
    by (cases "mode llm2") (simp_all add: rescueMode_def getMode_def)
  have rp: "rescuePrompt = nano_prompt_en_v2 plan @ STRICT_DIRECTIVE"
    by (simp add: assms(6) STRICT_DIRECTIVE_def nl_def)
  have len: "length rescuePrompt = length (nano_prompt_en_v2 plan) + 102"
    by (simp add: assms(6))
  obtain r llm3 where
    c: "callImageGenWithMode quality rescuePrompt (orig ! i) refs llm2 = (r, llm3)"
    by (cases "callImageGenWithMode quality rescuePrompt (orig ! i) refs llm2")
  have t: "truthy (Some img)" using assms(3) by (simp add: truthy_def)
  have e: "enhanceImage directorOut orig refs i (enh, sc, llm) =
              (enh[i := (case r of
                           Inr (Some rescueImg) \<Rightarrow> if rescueImg \<noteq> [] then rescueImg else img
                         | Inr None \<Rightarrow> img
                         | Inl err \<Rightarrow> img)],
               sc @ [\<lparr>s_index = i, s_score = score guard, s_verdict = verdict guard\<rparr>],
               llm3)"
    using assms(3) c[unfolded rp]
    by (simp add: enhanceImage_def assms(1,2,4,5) t rescueImage_def q Let_def truthy_def
             split: sum.splits option.splits)
  have d: "case matrix llm2 quality IMAGE_GEN of
                  None \<Rightarrow> r = Inr None \<and> llm3 = llm2
                | Some spec \<Rightarrow>
                    (\<exists>k ts. 0 < k \<and> k \<le> attemptsOf spec
                       \<and> traces llm3 = traces llm2 @ ts
                       \<and> map tr_agent ts = replicate k IMAGE_GEN
                       \<and> map tr_mode ts = replicate k quality
                       \<and> map tr_retriesUsed ts = [0..<k]
                       \<and> map tr_ok ts = replicate (k - 1) False @ [\<not> isl r]
                       \<and> (isl r \<longrightarrow> k = attemptsOf spec)
                       \<and> sent (ai llm3) = sent (ai llm2) @
                            replicate k (imageCall spec rescuePrompt (orig ! i) refs)
                       \<and> call_contents (imageCall spec rescuePrompt (orig ! i) refs) =
                            InlineData (orig ! i) # map InlineData refs @ [TextPart rescuePrompt])"
  proof (cases "matrix llm2 quality IMAGE_GEN")
    case None
    with c show ?thesis
      by (auto simp: callImageGenWithMode_def getSpecForMode_def)
  next
    case (Some spec)
    have cc: "call_contents (imageCall spec rescuePrompt (orig ! i) refs) =
                InlineData (orig ! i) # map InlineData refs @ [TextPart rescuePrompt]"
      by (simp add: imageCall_def buildImageParts_def)
    from rescue_call_detail[OF c Some] cc Some show ?thesis
      by simp
  qed
  have m: "map_option attemptsOf (MODEL_MATRIX quality IMAGE_GEN) = Some 3"
    by (simp add: attemptsOf_def mkSpec_def)
  from q len e d m show ?thesis
    by (simp add: c)
qed

text \<open>
  In \<open>fast\<close> mode, with a backend whose guardrail rejects the first image and whose
  rescue model answers at once: the rescue image is returned, the log holds the first
  generation, the guardrail and one rescue attempt in \<open>quality\<close> mode, and the rescue
  call carries the prompt of the plan with the directive after it.
\<close>

theorem rescue_single_call_witness:
  "find (\<lambda>p. image_index p = int 0) (d_images \<lparr>d_images = [relight]\<rparr>) = Some relight
   \<and> fst (generateImage relight (images req1 ! 0) [] (newLLMRouter rescueBackend req1 ''t1'')) =
       Some ''data:image/png;base64,ENH''
   \<and> \<not> pass (fst (safeRunFastGuardrail 0 (images req1 ! 0) ''data:image/png;base64,ENH''
                    (snd (generateImage relight (images req1 ! 0) []
                            (newLLMRouter rescueBackend req1 ''t1'')))))
   \<and> rescueMode (snd (safeRunFastGuardrail 0 (images req1 ! 0) ''data:image/png;base64,ENH''
                          (snd (generateImage relight (images req1 ! 0) []
                                  (newLLMRouter rescueBackend req1 ''t1''))))) = quality
   \<and> length (nano_prompt_en_v2 relight @ [CHR 0x0A] @ ''[STRICT]: ELIMINATE ALL FLOATING DOTS. Deepen shadows to black. Make the screen light the ONLY light.'') = length (nano_prompt_en_v2 relight) + 102
   \<and> fst (enhanceImage \<lparr>d_images = [relight]\<rparr> (images req1) [] 0
            ([ [] ], [], newLLMRouter rescueBackend req1 ''t1'')) =
       [''data:image/png;base64,RESCUE'']
   \<and> map (\<lambda>t. (tr_agent t, tr_mode t, tr_ok t))
        (traces (snd (snd (enhanceImage \<lparr>d_images = [relight]\<rparr> (images req1) [] 0
                            ([ [] ], [], newLLMRouter rescueBackend req1 ''t1''))))) =
       [(IMAGE_GEN, fast, True), (FAST_GUARDRAIL, fast, True), (IMAGE_GEN, quality, True)]
   \<and> map call_contents
        (drop 2 (sent (ai (snd (snd (enhanceImage \<lparr>d_images = [relight]\<rparr> (images req1) [] 0
                                      ([ [] ], [], newLLMRouter rescueBackend req1 ''t1''))))))) =
       [ [InlineData ''data:image/png;base64,AAAA'',
          TextPart (''Relight the desk.'' @ [CHR 0x0A] @ ''[STRICT]: ELIMINATE ALL FLOATING DOTS. Deepen shadows to black. Make the screen light the ONLY light.'')] ]"
proof -
  let ?llm = "newLLMRouter rescueBackend req1 ''t1''"
  let ?g = "generateImage relight (images req1 ! 0) [] ?llm"
  let ?s = "safeRunFastGuardrail 0 (images req1 ! 0) ''data:image/png;base64,ENH'' (snd ?g)"
  have h1: "find (\<lambda>p. image_index p = int 0) (d_images \<lparr>d_images = [relight]\<rparr>) = Some relight"
    by (simp add: relight_def)
  have h2: "fst ?g = Some ''data:image/png;base64,ENH''" by code_simp
  then have h2': "?g = (Some ''data:image/png;base64,ENH'', snd ?g)"
    by (metis prod.collapse)
  have h3: "''data:image/png;base64,ENH'' \<noteq> []" by simp
  have h4: "?s = (fst ?s, snd ?s)" by simp
  have h5: "\<not> pass (fst ?s)" by code_simp
  have e1: "fst (enhanceImage \<lparr>d_images = [relight]\<rparr> (images req1) [] 0 ([ [] ], [], ?llm)) =
       [''data:image/png;base64,RESCUE'']"
    by code_simp
  have e2: "map (\<lambda>t. (tr_agent t, tr_mode t, tr_ok t))
        (traces (snd (snd (enhanceImage \<lparr>d_images = [relight]\<rparr> (images req1) [] 0
                            ([ [] ], [], ?llm))))) =
       [(IMAGE_GEN, fast, True), (FAST_GUARDRAIL, fast, True), (IMAGE_GEN, quality, True)]"
    by code_simp
  have e3: "map call_contents
        (drop 2 (sent (ai (snd (snd (enhanceImage \<lparr>d_images = [relight]\<rparr> (images req1) [] 0
                                      ([ [] ], [], ?llm))))))) =
       [ [InlineData ''data:image/png;base64,AAAA'',
          TextPart (''Relight the desk.'' @ [CHR 0x0A] @ ''[STRICT]: ELIMINATE ALL FLOATING DOTS. Deepen shadows to black. Make the screen light the ONLY light.'')] ]"
    by code_simp
  note inst = rescue_single_call[where directorOut = "\<lparr>d_images = [relight]\<rparr>" and i = 0
      and plan = relight and orig = "images req1" and refs = "[]" and llm = ?llm
      and enh = "[ [] ]" and sc = "[]", OF _ h2' h3 h4 h5 refl]
  have "rescueMode (snd ?s) = quality"
    "length (nano_prompt_en_v2 relight @ [CHR 0x0A] @ ''[STRICT]: ELIMINATE ALL FLOATING DOTS. Deepen shadows to black. Make the screen light the ONLY light.'') = length (nano_prompt_en_v2 relight) + 102"
    using inst h1 by simp_all
  with h1 h2 h5 e1 e2 e3 show ?thesis by simp
qed

section \<open>Images without an enhancement\<close>

text \<open>
  C6. For an index that has a source image and a plan in the director output of the
  response, if the generation of that image fails in both tiers, the returned enhanced
  image at that index is the source image. The returned list has one entry per source
  image, and the entry at every index is the one written by the iteration of that
  index, run from the state the earlier iterations left: no iteration is skipped
  because another one failed.
\<close>

theorem failed_generation_keeps_original:
  assumes "i < length (images req)"
    and "find (\<lambda>p. image_index p = int i)
           (d_images (visual_director_output (projr (runOrchestrator api fresh req)))) = Some plan"
    and "generationFails plan (images req ! i) (referencesOf req) (routerAtImage api fresh req i)"
  shows "map (\<lambda>v. enhanced_images_base64 v ! i) (variants (projr (runOrchestrator api fresh req)))
           = [images req ! i]
     \<and> map (\<lambda>v. length (enhanced_images_base64 v)) (variants (projr (runOrchestrator api fresh req)))
           = [length (images req)]
     \<and> (\<forall>j<length (images req).
           map (\<lambda>v. enhanced_images_base64 v ! j) (variants (projr (runOrchestrator api fresh req))) =
           [fst (enhanceImage (visual_director_output (projr (runOrchestrator api fresh req)))
                   (images req) (referencesOf req) j (enhanceStateAt api fresh req j)) ! j])"
proof -
  let ?d = "visual_director_output (projr (runOrchestrator api fresh req))"
  obtain enh sc llm where st: "enhanceStateAt api fresh req i = (enh, sc, llm)"
    by (cases "enhanceStateAt api fresh req i") auto
  then have r: "routerAtImage api fresh req i = llm"
    by (simp add: routerAtImage_def)
  have len: "length enh = length (images req)"
    using enhanceStateAt_untouched(2)[OF assms(1), of api fresh] st by simp
  have "fst (enhanceImage ?d (images req) (referencesOf req) i (enh, sc, llm)) =
        enh[i := images req ! i]"
    by (rule enhanceImage_generation_failed[OF assms(2) assms(3)[unfolded r] ])
  then have a: "map (\<lambda>v. enhanced_images_base64 v ! i)
                  (variants (projr (runOrchestrator api fresh req))) = [images req ! i]"
    using response_entry[OF assms(1), of api fresh] st len assms(1) by simp
  have b: "map (\<lambda>v. length (enhanced_images_base64 v))
             (variants (projr (runOrchestrator api fresh req))) = [length (images req)]"
  proof -
    have "map (\<lambda>v. length (enhanced_images_base64 v))
             (variants (projr (runOrchestrator api fresh req))) =
          map length (map enhanced_images_base64 (variants (projr (runOrchestrator api fresh req))))"
      by simp
    also have "\<dots> = [length (images req)]"
      unfolding response_images by (simp add: length_enhanceLoop)
    finally show ?thesis .
  qed
  have c: "\<forall>j<length (images req).
           map (\<lambda>v. enhanced_images_base64 v ! j) (variants (projr (runOrchestrator api fresh req))) =
           [fst (enhanceImage ?d (images req) (referencesOf req) j (enhanceStateAt api fresh req j)) ! j]"
    by (auto intro: response_entry)
  from a b c show ?thesis by blast
qed

text \<open>
  The scenario of the specification: one image, \<open>fast\<close> mode, the backend failing on
  image generation (here on every call). The returned image is the source image; the
  same holds in \<open>quality\<close> mode, where both tiers are tried and fail.
\<close>

theorem failed_generation_keeps_original_witness:
  "(0::nat) < length (images req1)
   \<and> map image_index (d_images (visual_director_output (projr (runOrchestrator down ''t1'' req1))))
       = [0]
   \<and> generationFails (hd (d_images (visual_director_output (projr (runOrchestrator down ''t1'' req1)))))
        (images req1 ! 0) (referencesOf req1) (routerAtImage down ''t1'' req1 0)
   \<and> map (\<lambda>v. enhanced_images_base64 v ! 0) (variants (projr (runOrchestrator down ''t1'' req1)))
       = [''data:image/png;base64,AAAA'']
   \<and> mode (routerAtImage down ''t1'' req1q 0) = quality
   \<and> generationFails (hd (d_images (visual_director_output (projr (runOrchestrator down ''t1'' req1q)))))
        (images req1q ! 0) (referencesOf req1q) (routerAtImage down ''t1'' req1q 0)
   \<and> map (\<lambda>v. enhanced_images_base64 v ! 0) (variants (projr (runOrchestrator down ''t1'' req1q)))
       = [''data:image/png;base64,AAAA'']
   \<and> map (\<lambda>t. (tr_agent t, tr_mode t, tr_ok t))
        (drop 10 (traces (routerAtImage down ''t1'' req1q 1))) =
       [(IMAGE_GEN, quality, False), (IMAGE_GEN, quality, False), (IMAGE_GEN, quality, False),
        (IMAGE_GEN, fast, False), (IMAGE_GEN, fast, False)]"
proof -
  let ?d = "visual_director_output (projr (runOrchestrator down ''t1'' req1))"
  let ?dq = "visual_director_output (projr (runOrchestrator down ''t1'' req1q))"
  have h1: "(0::nat) < length (images req1)" by (simp add: req1_def)
  have h2: "map image_index (d_images ?d) = [0]" by code_simp
  then have h2': "find (\<lambda>p. image_index p = int 0) (d_images ?d) = Some (hd (d_images ?d))"
    by (cases "d_images ?d") auto
  have h3: "generationFails (hd (d_images ?d)) (images req1 ! 0) (referencesOf req1)
              (routerAtImage down ''t1'' req1 0)"
    by code_simp
  have h4: "images req1 ! 0 = ''data:image/png;base64,AAAA''" by (simp add: req1_def)
  have q1: "(0::nat) < length (images req1q)" by (simp add: req1q_def req1_def)
  have q2: "map image_index (d_images ?dq) = [0]" by code_simp
  then have q2': "find (\<lambda>p. image_index p = int 0) (d_images ?dq) = Some (hd (d_images ?dq))"
    by (cases "d_images ?dq") auto
  have q3: "generationFails (hd (d_images ?dq)) (images req1q ! 0) (referencesOf req1q)
              (routerAtImage down ''t1'' req1q 0)"
    by code_simp
  have q4: "images req1q ! 0 = ''data:image/png;base64,AAAA''" by (simp add: req1q_def req1_def)
  have q5: "mode (routerAtImage down ''t1'' req1q 0) = quality" by code_simp
  have q6: "map (\<lambda>t. (tr_agent t, tr_mode t, tr_ok t))
        (drop 10 (traces (routerAtImage down ''t1'' req1q 1))) =
       [(IMAGE_GEN, quality, False), (IMAGE_GEN, quality, False), (IMAGE_GEN, quality, False),
        (IMAGE_GEN, fast, False), (IMAGE_GEN, fast, False)]"
    by code_simp
  from failed_generation_keeps_original[OF h1 h2' h3, THEN conjunct1]
    failed_generation_keeps_original[OF q1 q2' q3, THEN conjunct1]
    h1 h2 h3 h4 q3 q4 q5 q6
  show ?thesis by simp
qed

text \<open>
  C10. For an index for which the director output of the response has no plan, the
  iteration of that index leaves the state of the loop as it was, the router with its
  log of sent calls and its trace list included, so it makes no call; the returned
  enhanced image at that index is the empty string, not the source image.
\<close>

theorem missing_plan_leaves_empty_entry:
  assumes "i < length (images req)"
    and "find (\<lambda>p. image_index p = int i)
           (d_images (visual_director_output (projr (runOrchestrator api fresh req)))) = None"
  shows "map (\<lambda>v. enhanced_images_base64 v ! i) (variants (projr (runOrchestrator api fresh req)))
           = [ [] ]
     \<and> enhanceImage (visual_director_output (projr (runOrchestrator api fresh req)))
          (images req) (referencesOf req) i (enhanceStateAt api fresh req i)
         = enhanceStateAt api fresh req i"
proof -
  let ?d = "visual_director_output (projr (runOrchestrator api fresh req))"
  have u: "enhanceImage ?d (images req) (referencesOf req) i (enhanceStateAt api fresh req i)
           = enhanceStateAt api fresh req i"
    by (rule enhanceImage_no_plan[OF assms(2)])
  have "map (\<lambda>v. enhanced_images_base64 v ! i) (variants (projr (runOrchestrator api fresh req)))
        = [fst (enhanceStateAt api fresh req i) ! i]"
    using response_entry[OF assms(1), of api fresh] u by simp
  with enhanceStateAt_untouched(1)[OF assms(1), of api fresh] u show ?thesis by simp
qed

text \<open>
  Two images and a director that returns a plan for the first one only: the second
  entry of the result is empty, while the first, whose generation fails, is the source
  image.
\<close>

theorem missing_plan_leaves_empty_entry_witness:
  "(1::nat) < length (images req2)
   \<and> find (\<lambda>p. image_index p = int 1)
        (d_images (visual_director_output (projr (runOrchestrator directorOnly ''t1'' req2)))) = None
   \<and> map enhanced_images_base64 (variants (projr (runOrchestrator directorOnly ''t1'' req2))) =
       [ [''data:image/png;base64,AAAA'', [] ] ]
   \<and> map (\<lambda>v. enhanced_images_base64 v ! 1)
        (variants (projr (runOrchestrator directorOnly ''t1'' req2))) = [ [] ]
   \<and> map tr_agent (traces (snd (snd (enhanceStateAt directorOnly ''t1'' req2 1)))) =
       map tr_agent (traces (snd (snd (enhanceStateAt directorOnly ''t1'' req2 2))))"
proof -
  have h1: "(1::nat) < length (images req2)" by (simp add: req2_def)
  have h2: "find (\<lambda>p. image_index p = int 1)
        (d_images (visual_director_output (projr (runOrchestrator directorOnly ''t1'' req2)))) = None"
    by code_simp
  have h3: "map enhanced_images_base64 (variants (projr (runOrchestrator directorOnly ''t1'' req2))) =
       [ [''data:image/png;base64,AAAA'', [] ] ]"
    by code_simp
  have h4: "map tr_agent (traces (snd (snd (enhanceStateAt directorOnly ''t1'' req2 1)))) =
       map tr_agent (traces (snd (snd (enhanceStateAt directorOnly ''t1'' req2 2))))"
    by code_simp
  from missing_plan_leaves_empty_entry[OF h1 h2, THEN conjunct1] h1 h2 h3 h4
  show ?thesis by simp
qed

end
